theory Spec2Isabelle
  imports Main "HOL-Library.Multiset"
begin

section \<open>JavaScript values\<close>

text \<open>
  The session code of \<^verbatim>\<open>packages/hub/src/session.ts\<close> is embedded function by
  function. Numbers are epoch milliseconds, counters and durations; they are modelled as
  \<^typ>\<open>int\<close> (every integer of magnitude below \<open>2^53\<close> is exact as a JavaScript
  number). An optional field of declared type \<open>T\<close> is a \<open>T option\<close>, \<open>None\<close> standing
  for \<^verbatim>\<open>undefined\<close>.

  The field \<^verbatim>\<open>did\<close> and the user fields it is derived from are kept as runtime values:
  \<^verbatim>\<open>toJSON\<close> inspects \<^verbatim>\<open>typeof this.did\<close>, and the \<^verbatim>\<open>User\<close> interface has an index
  signature of type \<^verbatim>\<open>any\<close>.
\<close>

datatype jsval =
    JUndefined
  | JNull
  | JBool bool
  | JNum int
  | JStr string
  | JObj "(string \<times> jsval) list"

text \<open>ToBoolean, as used by \<^verbatim>\<open>if (x)\<close>, \<^verbatim>\<open>!x\<close> and \<^verbatim>\<open>x || y\<close>.\<close>

fun truthy :: "jsval \<Rightarrow> bool" where
  "truthy JUndefined = False"
| "truthy JNull = False"
| "truthy (JBool b) = b"
| "truthy (JNum n) = (n \<noteq> 0)"
| "truthy (JStr s) = (s \<noteq> [])"
| "truthy (JObj kvs) = True"

text \<open>\<^verbatim>\<open>a || b\<close>: the left operand when it is truthy, else the right operand as it is.\<close>

definition js_or :: "jsval \<Rightarrow> jsval \<Rightarrow> jsval" where
  "js_or a b = (if truthy a then a else b)"

text \<open>Truthiness of an optional string (\<^verbatim>\<open>undefined\<close> and \<^verbatim>\<open>''\<close> are falsy).\<close>

fun truthy_str :: "string option \<Rightarrow> bool" where
  "truthy_str None = False"
| "truthy_str (Some s) = (s \<noteq> [])"

text \<open>Decimal digits of a natural number, and of an integer (Number::toString on integers).\<close>

definition digit_char :: "nat \<Rightarrow> char" where
  "digit_char d = ''0123456789'' ! (d mod 10)"

fun nat_to_string :: "nat \<Rightarrow> string" where
  "nat_to_string n =
     (if n < 10 then [digit_char n] else nat_to_string (n div 10) @ [digit_char (n mod 10)])"

definition int_to_string :: "int \<Rightarrow> string" where
  "int_to_string i = (if i < 0 then CHR ''-'' # nat_to_string (nat (- i)) else nat_to_string (nat i))"

text \<open>ToString, as applied by a template literal \<^verbatim>\<open>`${x}`\<close>.\<close>

fun to_string :: "jsval \<Rightarrow> string" where
  "to_string JUndefined = ''undefined''"
| "to_string JNull = ''null''"
| "to_string (JBool b) = (if b then ''true'' else ''false'')"
| "to_string (JNum n) = int_to_string n"
| "to_string (JStr s) = s"
| "to_string (JObj kvs) = ''[object Object]''"

text \<open>
  Modelled from the spec: \<^verbatim>\<open>dropUndefinedKeys\<close> of \<^verbatim>\<open>@sentry/utils\<close> is not among the
  sources. The spec says of it: all \<^verbatim>\<open>undefined\<close>-valued keys are dropped recursively,
  including within nested objects.
\<close>

fun dropUndefinedKeys :: "jsval \<Rightarrow> jsval" where
  "dropUndefinedKeys (JObj kvs) =
     JObj (map (\<lambda>(k, v). (k, dropUndefinedKeys v)) (filter (\<lambda>(k, v). v \<noteq> JUndefined) kvs))"
| "dropUndefinedKeys v = v"

text \<open>An object has no key whose value is \<^verbatim>\<open>undefined\<close>, at any depth.\<close>

fun no_undefined :: "jsval \<Rightarrow> bool" where
  "no_undefined (JObj kvs) = list_all (\<lambda>(k, v). v \<noteq> JUndefined \<and> no_undefined v) kvs"
| "no_undefined v = True"

text \<open>Own-property lookup on an object value (\<^verbatim>\<open>undefined\<close> for a missing key).\<close>

fun js_get :: "jsval \<Rightarrow> string \<Rightarrow> jsval" where
  "js_get (JObj kvs) k = (case map_of kvs k of Some v \<Rightarrow> v | None \<Rightarrow> JUndefined)"
| "js_get v k = JUndefined"

fun js_keys :: "jsval \<Rightarrow> string list" where
  "js_keys (JObj kvs) = map fst kvs"
| "js_keys v = []"

section \<open>Dates\<close>

text \<open>
  The parts of the ECMAScript \<^verbatim>\<open>Date\<close> object the code calls. A time value is an
  integer number of milliseconds since the epoch.

  The time zone is a parameter: \<^verbatim>\<open>LocalTZA(t, isUTC)\<close>, the offset of local time from UTC
  in milliseconds that is in force at the time value \<open>t\<close>, where \<open>t\<close> is a UTC time value
  when \<open>isUTC\<close> holds and a local time value otherwise. \<^verbatim>\<open>LocalTime(t)\<close> is
  \<open>t + LocalTZA(t, true)\<close> and \<^verbatim>\<open>UTC(t)\<close> is \<open>t - LocalTZA(t, false)\<close>; the two offsets
  differ when a daylight-saving change lies between the two times.
\<close>

type_synonym LocalTZA = "int \<Rightarrow> bool \<Rightarrow> int"

definition LocalTime :: "LocalTZA \<Rightarrow> int \<Rightarrow> int" where
  "LocalTime tza t = t + tza t True"

definition UTC :: "LocalTZA \<Rightarrow> int \<Rightarrow> int" where
  "UTC tza t = t - tza t False"

text \<open>A zone whose offset never changes.\<close>

definition fixed_zone :: "int \<Rightarrow> LocalTZA" where
  "fixed_zone z t isUTC = z"

definition msPerMinute :: int where "msPerMinute = 60000"
definition msPerHour :: int where "msPerHour = 3600000"
definition msPerDay :: int where "msPerDay = 86400000"

definition Day :: "int \<Rightarrow> int" where
  "Day t = t div msPerDay"

definition HourFromTime :: "int \<Rightarrow> int" where
  "HourFromTime t = (t div msPerHour) mod 24"

definition MinFromTime :: "int \<Rightarrow> int" where
  "MinFromTime t = (t div msPerMinute) mod 60"

definition MakeTime :: "int \<Rightarrow> int \<Rightarrow> int \<Rightarrow> int \<Rightarrow> int" where
  "MakeTime h m s milli = h * msPerHour + m * msPerMinute + s * 1000 + milli"

definition MakeDate :: "int \<Rightarrow> int \<Rightarrow> int" where
  "MakeDate day time = day * msPerDay + time"

text \<open>
  \<^verbatim>\<open>date.setMinutes(min, sec, ms)\<close> on a date holding time value \<open>t\<close>: the hour of the
  local time is kept, the minutes, seconds and milliseconds are replaced, the new local time
  is converted back to UTC with the offset in force at that local time, and the new time
  value is returned. (TimeClip is the identity on the values a running clock yields.)
\<close>

definition setMinutes :: "LocalTZA \<Rightarrow> int \<Rightarrow> int \<Rightarrow> int \<Rightarrow> int \<Rightarrow> int" where
  "setMinutes tza t m s milli =
     (let local = LocalTime tza t;
          date = MakeDate (Day local) (MakeTime (HourFromTime local) m s milli)
      in UTC tza date)"

text \<open>
  \<^verbatim>\<open>date.setSeconds(sec, ms)\<close>, for comparison: hour and minute of the local time are
  kept.
\<close>

definition setSeconds :: "LocalTZA \<Rightarrow> int \<Rightarrow> int \<Rightarrow> int \<Rightarrow> int" where
  "setSeconds tza t s milli =
     (let local = LocalTime tza t;
          date = MakeDate (Day local) (MakeTime (HourFromTime local) (MinFromTime local) s milli)
      in UTC tza date)"

text \<open>Left padding with zeros to a width.\<close>

definition pad :: "nat \<Rightarrow> string \<Rightarrow> string" where
  "pad w s = replicate (w - length s) (CHR ''0'') @ s"

text \<open>
  Year, month and day of a day number in the proleptic Gregorian calendar (day 0 is
  1970-01-01), by the usual era/day-of-era computation.
\<close>

definition civil_from_days :: "int \<Rightarrow> int \<times> int \<times> int" where
  "civil_from_days z0 =
     (let z = z0 + 719468;
          era = z div 146097;
          doe = z - era * 146097;
          yoe = (doe - doe div 1460 + doe div 36524 - doe div 146096) div 365;
          y = yoe + era * 400;
          doy = doe - (365 * yoe + yoe div 4 - yoe div 100);
          mp = (5 * doy + 2) div 153;
          d = doy - (153 * mp + 2) div 5 + 1;
          m = (if mp < 10 then mp + 3 else mp - 9)
      in (if m \<le> 2 then y + 1 else y, m, d))"

definition year_string :: "int \<Rightarrow> string" where
  "year_string y =
     (if 0 \<le> y \<and> y \<le> 9999 then pad 4 (nat_to_string (nat y))
      else (if y < 0 then CHR ''-'' else CHR ''+'') # pad 6 (nat_to_string (nat \<bar>y\<bar>)))"

text \<open>The ISO-8601 rendering \<^verbatim>\<open>YYYY-MM-DDTHH:mm:ss.sssZ\<close> of a time value.\<close>

definition iso_string :: "int \<Rightarrow> string" where
  "iso_string t =
     (let (y, m, d) = civil_from_days (Day t);
          ms = t mod msPerDay;
          two = (\<lambda>n. pad 2 (nat_to_string (nat n)))
      in year_string y @ ''-'' @ two m @ ''-'' @ two d @ ''T''
         @ two (ms div msPerHour) @ '':'' @ two ((ms div msPerMinute) mod 60) @ '':''
         @ two ((ms div 1000) mod 60) @ ''.'' @ pad 3 (nat_to_string (nat (ms mod 1000)))
         @ ''Z'')"

datatype js_error = RangeError

text \<open>
  \<^verbatim>\<open>new Date(v).toISOString()\<close>: a number beyond \<open>8.64e15\<close> in magnitude is not a time
  value, and \<^verbatim>\<open>toISOString\<close> throws a RangeError on the invalid date.
\<close>

definition valid_time :: "int \<Rightarrow> bool" where
  "valid_time v = (\<bar>v\<bar> \<le> 8640000000000000)"

definition toISOString :: "int \<Rightarrow> js_error + string" where
  "toISOString v = (if valid_time v then Inr (iso_string v) else Inl RangeError)"

section \<open>The Session record\<close>

datatype SessionStatus = Ok | Exited | Crashed | Abnormal

datatype SessionMode = Application | Request

text \<open>The string values of the two enums, as they are serialised.\<close>

fun status_string :: "SessionStatus \<Rightarrow> string" where
  "status_string Ok = ''ok''"
| "status_string Exited = ''exited''"
| "status_string Crashed = ''crashed''"
| "status_string Abnormal = ''abnormal''"

fun mode_string :: "SessionMode \<Rightarrow> string" where
  "mode_string Application = ''application''"
| "mode_string Request = ''request''"

text \<open>
  The user of a context. Its interface declaration is not among the sources; \<^verbatim>\<open>update\<close>
  reads the four fields below. An absent \<^verbatim>\<open>id\<close>, \<^verbatim>\<open>email\<close> or \<^verbatim>\<open>username\<close> is
  \<^const>\<open>JUndefined\<close>; \<^verbatim>\<open>ip_address\<close> is copied to the string field \<^verbatim>\<open>ipAddress\<close>
  and is kept at its declared type.
\<close>

record User =
  id' :: jsval
  ip_address :: "string option"
  email :: jsval
  username :: jsval

record SessionContext =
  sid :: "string option"
  did :: jsval
  init :: "bool option"
  timestamp :: "int option"
  started :: "int option"
  duration :: "int option"
  status :: "SessionStatus option"
  release :: "string option"
  environment :: "string option"
  userAgent :: "string option"
  ipAddress :: "string option"
  errors :: "int option"
  user :: "User option"
  sessionMode :: "SessionMode option"

record Session =
  userAgent :: "string option"
  errors :: int
  release :: "string option"
  sid :: string
  did :: jsval
  timestamp :: int
  started :: int
  duration :: int
  status :: SessionStatus
  sessionMode :: SessionMode
  environment :: "string option"
  ipAddress :: "string option"
  init :: bool

text \<open>
  What a call reads from outside the session: the clock (\<^verbatim>\<open>Date.now()\<close>) and the
  identifier that \<^verbatim>\<open>uuid4()\<close> of \<^verbatim>\<open>@sentry/utils\<close> would return.
\<close>

record Env =
  now :: int
  uuid4 :: string

text \<open>The empty context \<^verbatim>\<open>{}\<close>, the default argument of \<^verbatim>\<open>update\<close>.\<close>

definition no_context :: SessionContext where
  "no_context =
     \<lparr>SessionContext.sid = None, SessionContext.did = JUndefined, SessionContext.init = None,
      SessionContext.timestamp = None, SessionContext.started = None,
      SessionContext.duration = None, SessionContext.status = None,
      SessionContext.release = None, SessionContext.environment = None,
      SessionContext.userAgent = None, SessionContext.ipAddress = None,
      SessionContext.errors = None, SessionContext.user = None,
      SessionContext.sessionMode = None\<rparr>"

text \<open>
  \<^verbatim>\<open>Session.update(context)\<close>, statement by statement. Each statement of the method
  body is a function of its own, named after what it assigns; \<^verbatim>\<open>update\<close> runs them in
  the order of the source.

  \<^verbatim>\<open>if (context.user) { if (context.user.ip_address) ...; if (!context.did) ... }\<close>
\<close>

definition set_from_user :: "SessionContext \<Rightarrow> Session \<Rightarrow> Session" where
  "set_from_user c s =
     (case SessionContext.user c of
        None \<Rightarrow> s
      | Some u \<Rightarrow>
          (let s = (if truthy_str (ip_address u) then s\<lparr>Session.ipAddress := ip_address u\<rparr>
                    else s)
           in if \<not> truthy (SessionContext.did c)
              then s\<lparr>Session.did := js_or (js_or (id' u) (email u)) (username u)\<rparr>
              else s))"

text \<open>\<^verbatim>\<open>this.timestamp = context.timestamp || Date.now()\<close>\<close>

definition set_timestamp :: "Env \<Rightarrow> SessionContext \<Rightarrow> Session \<Rightarrow> Session" where
  "set_timestamp e c s =
     s\<lparr>Session.timestamp :=
         (case SessionContext.timestamp c of
            Some t \<Rightarrow> if t \<noteq> 0 then t else now e
          | None \<Rightarrow> now e)\<rparr>"

text \<open>\<^verbatim>\<open>if (context.sid) this.sid = context.sid.length === 32 ? context.sid : uuid4()\<close>\<close>

definition set_sid :: "Env \<Rightarrow> SessionContext \<Rightarrow> Session \<Rightarrow> Session" where
  "set_sid e c s =
     (case SessionContext.sid c of
        Some x \<Rightarrow>
          if x \<noteq> [] then s\<lparr>Session.sid := (if length x = 32 then x else uuid4 e)\<rparr> else s
      | None \<Rightarrow> s)"

text \<open>\<^verbatim>\<open>if (context.init !== undefined) this.init = context.init\<close>\<close>

definition set_init :: "SessionContext \<Rightarrow> Session \<Rightarrow> Session" where
  "set_init c s =
     (case SessionContext.init c of Some b \<Rightarrow> s\<lparr>Session.init := b\<rparr> | None \<Rightarrow> s)"

text \<open>\<^verbatim>\<open>if (context.did) this.did = `${context.did}`\<close>\<close>

definition set_did :: "SessionContext \<Rightarrow> Session \<Rightarrow> Session" where
  "set_did c s =
     (if truthy (SessionContext.did c)
      then s\<lparr>Session.did := JStr (to_string (SessionContext.did c))\<rparr> else s)"

text \<open>\<^verbatim>\<open>if (typeof context.started === 'number') this.started = context.started\<close>\<close>

definition set_started :: "SessionContext \<Rightarrow> Session \<Rightarrow> Session" where
  "set_started c s =
     (case SessionContext.started c of Some v \<Rightarrow> s\<lparr>Session.started := v\<rparr> | None \<Rightarrow> s)"

text \<open>
  \<^verbatim>\<open>if (typeof context.duration === 'number') this.duration = context.duration;
  else this.duration = this.timestamp - this.started\<close>
\<close>

definition set_duration :: "SessionContext \<Rightarrow> Session \<Rightarrow> Session" where
  "set_duration c s =
     (case SessionContext.duration c of
        Some d \<Rightarrow> s\<lparr>Session.duration := d\<rparr>
      | None \<Rightarrow> s\<lparr>Session.duration := Session.timestamp s - Session.started s\<rparr>)"

text \<open>
  \<^verbatim>\<open>if (context.release) ...\<close>, \<^verbatim>\<open>if (context.environment) ...\<close>,
  \<^verbatim>\<open>if (context.ipAddress) ...\<close>, \<^verbatim>\<open>if (context.userAgent) ...\<close>
\<close>

definition set_release :: "SessionContext \<Rightarrow> Session \<Rightarrow> Session" where
  "set_release c s =
     (if truthy_str (SessionContext.release c)
      then s\<lparr>Session.release := SessionContext.release c\<rparr> else s)"

definition set_environment :: "SessionContext \<Rightarrow> Session \<Rightarrow> Session" where
  "set_environment c s =
     (if truthy_str (SessionContext.environment c)
      then s\<lparr>Session.environment := SessionContext.environment c\<rparr> else s)"

definition set_ipAddress :: "SessionContext \<Rightarrow> Session \<Rightarrow> Session" where
  "set_ipAddress c s =
     (if truthy_str (SessionContext.ipAddress c)
      then s\<lparr>Session.ipAddress := SessionContext.ipAddress c\<rparr> else s)"

definition set_userAgent :: "SessionContext \<Rightarrow> Session \<Rightarrow> Session" where
  "set_userAgent c s =
     (if truthy_str (SessionContext.userAgent c)
      then s\<lparr>Session.userAgent := SessionContext.userAgent c\<rparr> else s)"

text \<open>\<^verbatim>\<open>if (typeof context.errors === 'number') this.errors = context.errors\<close>\<close>

definition set_errors :: "SessionContext \<Rightarrow> Session \<Rightarrow> Session" where
  "set_errors c s =
     (case SessionContext.errors c of Some n \<Rightarrow> s\<lparr>Session.errors := n\<rparr> | None \<Rightarrow> s)"

text \<open>
  \<^verbatim>\<open>if (context.status) this.status = context.status\<close> and
  \<^verbatim>\<open>if (context.sessionMode) this.sessionMode = context.sessionMode\<close>
  (every value of the two enums is a non-empty string).
\<close>

definition set_status :: "SessionContext \<Rightarrow> Session \<Rightarrow> Session" where
  "set_status c s =
     (case SessionContext.status c of Some st \<Rightarrow> s\<lparr>Session.status := st\<rparr> | None \<Rightarrow> s)"

definition set_sessionMode :: "SessionContext \<Rightarrow> Session \<Rightarrow> Session" where
  "set_sessionMode c s =
     (case SessionContext.sessionMode c of
        Some m \<Rightarrow> s\<lparr>Session.sessionMode := m\<rparr>
      | None \<Rightarrow> s)"

definition update :: "Env \<Rightarrow> SessionContext \<Rightarrow> Session \<Rightarrow> Session" where
  "update e c s0 =
     (let s = set_from_user c s0;
          s = set_timestamp e c s;
          s = set_sid e c s;
          s = set_init c s;
          s = set_did c s;
          s = set_started c s;
          s = set_duration c s;
          s = set_release c s;
          s = set_environment c s;
          s = set_ipAddress c s;
          s = set_userAgent c s;
          s = set_errors c s;
          s = set_status c s;
          s = set_sessionMode c s
      in s)"

text \<open>
  The field initialisers of the class, in declaration order: \<^verbatim>\<open>sid = uuid4()\<close>, then
  \<^verbatim>\<open>timestamp = Date.now()\<close>, then \<^verbatim>\<open>started = Date.now()\<close> (two readings of the
  clock).
\<close>

definition init_Session :: "string \<Rightarrow> int \<Rightarrow> int \<Rightarrow> Session" where
  "init_Session u t_timestamp t_started =
     \<lparr>Session.userAgent = None, Session.errors = 0, Session.release = None,
      Session.sid = u, Session.did = JUndefined, Session.timestamp = t_timestamp,
      Session.started = t_started, Session.duration = 0, Session.status = Ok,
      Session.sessionMode = Application, Session.environment = None,
      Session.ipAddress = None, Session.init = True\<rparr>"

text \<open>The constructor: the initialisers, then \<^verbatim>\<open>update(context)\<close> when a context is given.\<close>

definition new_Session :: "string \<Rightarrow> int \<Rightarrow> int \<Rightarrow> Env \<Rightarrow> SessionContext option \<Rightarrow> Session" where
  "new_Session u t_timestamp t_started e context =
     (case context of
        None \<Rightarrow> init_Session u t_timestamp t_started
      | Some c \<Rightarrow> update e c (init_Session u t_timestamp t_started))"

text \<open>\<^verbatim>\<open>Session.close(status?)\<close>.\<close>

definition close :: "Env \<Rightarrow> SessionStatus option \<Rightarrow> Session \<Rightarrow> Session" where
  "close e st s =
     (case st of
        Some x \<Rightarrow> update e (no_context\<lparr>SessionContext.status := Some x\<rparr>) s
      | None \<Rightarrow>
          if Session.status s = Ok
          then update e (no_context\<lparr>SessionContext.status := Some Exited\<rparr>) s
          else update e no_context s)"

text \<open>
  \<^verbatim>\<open>Session.toJSON()\<close>. The two \<^verbatim>\<open>toISOString\<close> calls are evaluated in the order of the
  object literal and either may throw.
\<close>

definition opt_str :: "string option \<Rightarrow> jsval" where
  "opt_str x = (case x of None \<Rightarrow> JUndefined | Some s \<Rightarrow> JStr s)"

definition is_number_or_string :: "jsval \<Rightarrow> bool" where
  "is_number_or_string v = (case v of JNum n \<Rightarrow> True | JStr s \<Rightarrow> True | _ \<Rightarrow> False)"

definition toJSON :: "Session \<Rightarrow> js_error + jsval" where
  "toJSON s =
     (case toISOString (Session.started s) of
        Inl err \<Rightarrow> Inl err
      | Inr started_iso \<Rightarrow>
          (case toISOString (Session.timestamp s) of
             Inl err \<Rightarrow> Inl err
           | Inr timestamp_iso \<Rightarrow>
               Inr (dropUndefinedKeys (JObj
                 [(''sid'', JStr (Session.sid s)),
                  (''init'', JBool (Session.init s)),
                  (''started'', JStr started_iso),
                  (''timestamp'', JStr timestamp_iso),
                  (''status'', JStr (status_string (Session.status s))),
                  (''session_mode'', JStr (mode_string (Session.sessionMode s))),
                  (''errors'', JNum (Session.errors s)),
                  (''did'', if is_number_or_string (Session.did s)
                            then JStr (to_string (Session.did s)) else JUndefined),
                  (''duration'', JNum (Session.duration s)),
                  (''attrs'', dropUndefinedKeys (JObj
                     [(''release'', opt_str (Session.release s)),
                      (''environment'', opt_str (Session.environment s)),
                      (''ip_address'', opt_str (Session.ipAddress s)),
                      (''user_agent'', opt_str (Session.userAgent s))]))]))))"

text \<open>A life of a session: a sequence of calls, each with what it reads from outside.\<close>

datatype session_op = Update SessionContext | Close "SessionStatus option"

fun apply_op :: "Env \<Rightarrow> session_op \<Rightarrow> Session \<Rightarrow> Session" where
  "apply_op e (Update c) s = update e c s"
| "apply_op e (Close st) s = close e st s"

fun run_ops :: "(Env \<times> session_op) list \<Rightarrow> Session \<Rightarrow> Session" where
  "run_ops [] s = s"
| "run_ops ((e, x) # rest) s = run_ops rest (apply_op e x s)"

section \<open>The SessionFlusher\<close>

record AggregationCounts =
  started :: "string option"
  errored :: "int option"
  exited :: "int option"
  crashed :: "int option"
  abnormal :: "int option"

text \<open>The object literal \<^verbatim>\<open>{}\<close> a new bucket starts as.\<close>

definition empty_counts :: AggregationCounts where
  "empty_counts =
     \<lparr>AggregationCounts.started = None, errored = None, exited = None, crashed = None,
      abnormal = None\<rparr>"

record SessionAttrs =
  environment :: "string option"
  release :: "string option"

text \<open>
  The payload handed to the transport. An element of \<^verbatim>\<open>aggregates\<close> is the result of a
  property read, which JavaScript lets be \<^verbatim>\<open>undefined\<close> (\<open>None\<close>).
\<close>

record AggregatedSessions =
  attrs :: "SessionAttrs option"
  aggregates :: "AggregationCounts option list"

text \<open>
  The delivery capability. What a call of the transport's \<^verbatim>\<open>sendSessions\<close> does is an
  input of the flusher: the promise it returns is fulfilled, or it is rejected with a reason
  (given here by its string conversion), or the call itself throws (as \<^verbatim>\<open>sendSession\<close>
  of \<^verbatim>\<open>HTTPSTransport\<close> in \<^verbatim>\<open>packages/node/src/transports/https.ts\<close> does when no
  module is available). A transport without the method has \<open>None\<close>. The \<^verbatim>\<open>Transport\<close>
  interface itself is not among the sources.
\<close>

datatype send_result = Fulfilled | Rejected string | Throws string

record Transport =
  sendSessions :: "(AggregatedSessions \<Rightarrow> send_result) option"

text \<open>
  What a call does to the outside: calls of the logger and of the transport, in order.
\<close>

datatype event =
    LoggerWarn string
  | LoggerError string
  | TransportSendSessions AggregatedSessions

record SessionFlusher =
  pendingAggregates :: "(int \<times> AggregationCounts) list"
  sessionAttrs :: "SessionAttrs option"
  transport :: Transport
  flushTimeout :: int

text \<open>
  \<^verbatim>\<open>_pendingAggregates\<close> is a plain object used as a table from numbers to buckets. It is
  modelled by the list of its own properties in creation order; a key is the number whose
  string conversion names the property (for time values this conversion is the decimal
  numeral, and \<^verbatim>\<open>parseInt\<close> inverts it).
\<close>

definition obj_get :: "(int \<times> 'a) list \<Rightarrow> int \<Rightarrow> 'a option" where
  "obj_get tbl k = map_of tbl k"

text \<open>\<^verbatim>\<open>obj[k] = v\<close>: an existing property keeps its place, a new one is created last.\<close>

fun obj_set :: "(int \<times> 'a) list \<Rightarrow> int \<Rightarrow> 'a \<Rightarrow> (int \<times> 'a) list" where
  "obj_set [] k v = [(k, v)]"
| "obj_set ((k', v') # rest) k v =
     (if k' = k then (k, v) # rest else (k', v') # obj_set rest k v)"

text \<open>
  \<^verbatim>\<open>Object.keys(obj)\<close> lists the own property keys in the order of the language: first
  the keys that are array indices (the integers from \<open>0\<close> to \<open>2^32 - 2\<close>) in ascending
  numeric order, then all other keys in creation order.
\<close>

definition is_array_index :: "int \<Rightarrow> bool" where
  "is_array_index k = (0 \<le> k \<and> k < 4294967295)"

definition Object_keys :: "(int \<times> 'a) list \<Rightarrow> int list" where
  "Object_keys tbl =
     sort (filter is_array_index (map fst tbl))
     @ filter (\<lambda>k. \<not> is_array_index k) (map fst tbl)"

text \<open>The constructor (the interval timer it arms is not part of the model).\<close>

definition new_SessionFlusher :: "Transport \<Rightarrow> int \<Rightarrow> SessionFlusher" where
  "new_SessionFlusher t timeout =
     \<lparr>pendingAggregates = [], sessionAttrs = None, transport = t, flushTimeout = timeout\<rparr>"

text \<open>
  \<^verbatim>\<open>SessionFlusher.sendSessions(aggregatedSession)\<close>. The result is the calls made, in
  order, and the exception that reaches the caller, if any. The rejection handler runs when
  the promise settles; its call of the logger is listed after the call of the transport.
\<close>

definition sendSessions :: "SessionFlusher \<Rightarrow> AggregatedSessions \<Rightarrow> event list \<times> string option" where
  "sendSessions f aggregatedSession =
     (case Transport.sendSessions (transport f) of
        None \<Rightarrow>
          ([LoggerWarn ''Dropping session because custom transport doesn't implement sendSession''],
           None)
      | Some send \<Rightarrow>
          (case send aggregatedSession of
             Fulfilled \<Rightarrow> ([TransportSendSessions aggregatedSession], None)
           | Rejected reason \<Rightarrow>
               ([TransportSendSessions aggregatedSession,
                 LoggerError (''Error while sending session: '' @ reason)], None)
           | Throws x \<Rightarrow> ([TransportSendSessions aggregatedSession], Some x)))"

text \<open>\<^verbatim>\<open>SessionFlusher.flush()\<close>: the new state of the flusher and what \<^verbatim>\<open>sendSessions\<close> did.\<close>

definition flush :: "SessionFlusher \<Rightarrow> SessionFlusher \<times> event list \<times> string option" where
  "flush f =
     (if length (Object_keys (pendingAggregates f)) = 0 then (f, [], None)
      else
        (let aggregates = map (\<lambda>key. obj_get (pendingAggregates f) key)
                              (Object_keys (pendingAggregates f));
             f = f\<lparr>pendingAggregates := []\<rparr>;
             aggregatedSessions = \<lparr>attrs = sessionAttrs f, aggregates = aggregates\<rparr>;
             f = f\<lparr>sessionAttrs := None\<rparr>
         in (f, sendSessions f aggregatedSessions)))"

text \<open>
  What \<^verbatim>\<open>incrementSessionCount\<close> reads from outside: the clock (\<^verbatim>\<open>new Date()\<close>), the
  local time zone, and the current hub. Of the hub it reads the options of the client
  (\<open>None\<close> when there is no client) and the request session of the scope (\<open>None\<close> when there
  is no scope or the scope has none). The request session is an object the call writes to;
  its status is compared with the string \<^verbatim>\<open>'errored'\<close>. The hub, the client and the
  scope are not among the sources.
\<close>

record Options =
  release :: "string option"
  environment :: "string option"

record RequestSession =
  status :: "string option"

record Hub =
  client :: "Options option"
  requestSession :: "RequestSession option"

record FlusherEnv =
  date :: int
  localTZA :: LocalTZA
  hub :: Hub

text \<open>
  \<^verbatim>\<open>SessionFlusher.incrementSessionCount()\<close>: the new state of the flusher and of the hub.
  \<^verbatim>\<open>aggregationCounts\<close> is the object stored in the table, so the writes to it are writes
  to the table entry. The time value given to \<^verbatim>\<open>toISOString\<close> comes from a date object
  and is valid.
\<close>

definition incrementSessionCount :: "FlusherEnv \<Rightarrow> SessionFlusher \<Rightarrow> SessionFlusher \<times> Hub" where
  "incrementSessionCount env f0 =
     (let f = (case sessionAttrs f0 of
                 Some a \<Rightarrow> f0
               | None \<Rightarrow>
                   (let opts = (case client (hub env) of
                                  Some x \<Rightarrow> x
                                | None \<Rightarrow> \<lparr>Options.release = None, Options.environment = None\<rparr>)
                    in f0\<lparr>sessionAttrs :=
                            Some \<lparr>SessionAttrs.environment = Options.environment opts,
                                  SessionAttrs.release = Options.release opts\<rparr>\<rparr>));
          sessionStartedTrunc = setMinutes (localTZA env) (date env) 0 0 0;
          aggregationCounts =
            (case obj_get (pendingAggregates f) sessionStartedTrunc of
               Some b \<Rightarrow> b
             | None \<Rightarrow> empty_counts);
          aggregationCounts =
            (if \<not> truthy_str (AggregationCounts.started aggregationCounts)
             then aggregationCounts\<lparr>AggregationCounts.started :=
                    Some (iso_string sessionStartedTrunc)\<rparr>
             else aggregationCounts);
          aggregationCounts =
            (case requestSession (hub env) of
               None \<Rightarrow> aggregationCounts
             | Some rs \<Rightarrow>
                 if RequestSession.status rs = Some ''errored''
                 then aggregationCounts\<lparr>errored :=
                        (case errored aggregationCounts of
                           Some n \<Rightarrow> Some (n + 1)
                         | None \<Rightarrow> Some 1)\<rparr>
                 else aggregationCounts\<lparr>exited :=
                        (case exited aggregationCounts of
                           Some n \<Rightarrow> Some (n + 1)
                         | None \<Rightarrow> Some 1)\<rparr>);
          hub' = (case requestSession (hub env) of
                    None \<Rightarrow> hub env
                  | Some rs \<Rightarrow>
                      (hub env)\<lparr>requestSession := Some (rs\<lparr>RequestSession.status := None\<rparr>)\<rparr>)
      in (f\<lparr>pendingAggregates :=
              obj_set (pendingAggregates f) sessionStartedTrunc aggregationCounts\<rparr>,
          hub'))"

section \<open>Vocabulary for the properties\<close>

text \<open>The key \<^verbatim>\<open>sessionStartedTrunc\<close> that a call of \<^verbatim>\<open>incrementSessionCount\<close> computes.\<close>

definition bucket_key :: "FlusherEnv \<Rightarrow> int" where
  "bucket_key env = setMinutes (localTZA env) (date env) 0 0 0"


text \<open>The two writes of \<^verbatim>\<open>incrementSessionCount\<close> to the bucket, each on its own.\<close>

definition stamped :: "int \<Rightarrow> AggregationCounts \<Rightarrow> AggregationCounts" where
  "stamped k b =
     (if truthy_str (AggregationCounts.started b) then b
      else b\<lparr>AggregationCounts.started := Some (iso_string k)\<rparr>)"

definition counted :: "RequestSession option \<Rightarrow> AggregationCounts \<Rightarrow> AggregationCounts" where
  "counted r b =
     (case r of
        None \<Rightarrow> b
      | Some rs \<Rightarrow>
          if RequestSession.status rs = Some ''errored''
          then b\<lparr>errored := Some (case errored b of Some n \<Rightarrow> n + 1 | None \<Rightarrow> 1)\<rparr>
          else b\<lparr>exited := Some (case exited b of Some n \<Rightarrow> n + 1 | None \<Rightarrow> 1)\<rparr>)"

text \<open>
  The context that an operation on a session hands to \<^verbatim>\<open>update\<close>: \<^verbatim>\<open>close\<close> builds it
  from its argument and the current status.
\<close>

definition context_of :: "session_op \<Rightarrow> Session \<Rightarrow> SessionContext" where
  "context_of x s =
     (case x of
        Update c \<Rightarrow> c
      | Close (Some st) \<Rightarrow> no_context\<lparr>SessionContext.status := Some st\<rparr>
      | Close None \<Rightarrow>
          if Session.status s = Ok then no_context\<lparr>SessionContext.status := Some Exited\<rparr>
          else no_context)"

text \<open>
  The times of a call are free of skew: an explicit \<^verbatim>\<open>started\<close> is not later than the
  clock, an explicit (truthy) \<^verbatim>\<open>timestamp\<close> is not earlier than the start of the session
  as the call leaves it, and an explicit \<^verbatim>\<open>duration\<close> is not negative.
\<close>

definition times_ok :: "Env \<Rightarrow> SessionContext \<Rightarrow> Session \<Rightarrow> bool" where
  "times_ok e c s =
     ((case SessionContext.started c of None \<Rightarrow> True | Some v \<Rightarrow> v \<le> now e)
      \<and> (case SessionContext.timestamp c of
            None \<Rightarrow> True
          | Some ts \<Rightarrow> ts = 0 \<or> Session.started (update e c s) \<le> ts)
      \<and> (case SessionContext.duration c of None \<Rightarrow> True | Some d \<Rightarrow> 0 \<le> d))"

text \<open>
  A sequence of calls on a session is free of clock skew from time \<open>t\<close> on: the readings of
  the clock never decrease, starting at \<open>t\<close>, and the times of every call are free of skew.
\<close>

fun no_clock_skew :: "int \<Rightarrow> Session \<Rightarrow> (Env \<times> session_op) list \<Rightarrow> bool" where
  "no_clock_skew t s [] = True"
| "no_clock_skew t s ((e, x) # rest) =
     (t \<le> now e \<and> times_ok e (context_of x s) s \<and> no_clock_skew (now e) (apply_op e x s) rest)"

section \<open>Example inputs\<close>

text \<open>Concrete sessions, contexts, hubs and transports that the properties are evaluated at.\<close>

definition sid_a :: string where
  "sid_a = ''0123456789abcdef0123456789abcdef''"

definition sid_b :: string where
  "sid_b = ''fedcba9876543210fedcba9876543210''"

definition env_at :: "int \<Rightarrow> Env" where
  "env_at t = \<lparr>now = t, uuid4 = sid_b\<rparr>"

definition session_a :: Session where
  "session_a = init_Session sid_a 1000 1000"

definition user_blank :: User where
  "user_blank = \<lparr>id' = JUndefined, ip_address = None, email = JUndefined, username = JStr ''''\<rparr>"

definition session_b :: Session where
  "session_b = session_a\<lparr>Session.did := JNum 42, Session.release := Some ''1.0''\<rparr>"

definition json_b :: jsval where
  "json_b = JObj
     [(''sid'', JStr sid_a), (''init'', JBool True),
      (''started'', JStr ''1970-01-01T00:00:01.000Z''),
      (''timestamp'', JStr ''1970-01-01T00:00:01.000Z''),
      (''status'', JStr ''ok''), (''session_mode'', JStr ''application''),
      (''errors'', JNum 0), (''did'', JStr ''42''), (''duration'', JNum 0),
      (''attrs'', JObj [(''release'', JStr ''1.0'')])]"

definition hub_with :: "string option \<Rightarrow> Hub" where
  "hub_with st = \<lparr>client = None, requestSession = Some \<lparr>RequestSession.status = st\<rparr>\<rparr>"

definition flusher_env :: "int \<Rightarrow> Hub \<Rightarrow> FlusherEnv" where
  "flusher_env t h = \<lparr>date = t, localTZA = fixed_zone 0, hub = h\<rparr>"

text \<open>
  New York in the autumn of 2021: daylight-saving time (UTC-04:00) ends at
  2021-11-07T06:00:00Z (time value 1636264800000), when the local clocks go back from 02:00
  to 01:00 (UTC-05:00). A local time that occurs twice is read with the offset before the
  change, as ECMAScript prescribes.
\<close>

definition new_york_autumn_2021 :: LocalTZA where
  "new_york_autumn_2021 t isUTC =
     (if isUTC then (if t < 1636264800000 then - 14400000 else - 18000000)
      else (if t < 1636264800000 - 14400000 then - 14400000 else - 18000000))"

definition transport_fulfilling :: Transport where
  "transport_fulfilling = \<lparr>Transport.sendSessions = Some (\<lambda>p. Fulfilled)\<rparr>"

definition transport_rejecting :: Transport where
  "transport_rejecting = \<lparr>Transport.sendSessions = Some (\<lambda>p. Rejected ''timeout'')\<rparr>"

definition transport_throwing :: Transport where
  "transport_throwing = \<lparr>Transport.sendSessions = Some (\<lambda>p. Throws ''boom'')\<rparr>"

definition transport_without :: Transport where
  "transport_without = \<lparr>Transport.sendSessions = None\<rparr>"

definition no_payload :: AggregatedSessions where
  "no_payload = \<lparr>attrs = None, aggregates = []\<rparr>"

definition bucket :: "string \<Rightarrow> int option \<Rightarrow> int option \<Rightarrow> AggregationCounts" where
  "bucket iso_text n_errored n_exited =
     \<lparr>AggregationCounts.started = Some iso_text, errored = n_errored, exited = n_exited,
      crashed = None, abnormal = None\<rparr>"

definition flusher_two_hours :: SessionFlusher where
  "flusher_two_hours =
     fst (incrementSessionCount (flusher_env 0 (hub_with None))
       (fst (incrementSessionCount (flusher_env 3600000 (hub_with (Some ''errored'')))
          (new_SessionFlusher transport_fulfilling 10))))"

definition flusher_one_bucket :: SessionFlusher where
  "flusher_one_bucket =
     fst (incrementSessionCount (flusher_env 1615883130123 (hub_with (Some ''errored'')))
       (new_SessionFlusher transport_fulfilling 10))"

text \<open>Two buckets of 2021, the later hour created first.\<close>

definition flusher_two_buckets :: SessionFlusher where
  "flusher_two_buckets =
     fst (incrementSessionCount (flusher_env 1615883130123 (hub_with None))
       (fst (incrementSessionCount (flusher_env 1615885260000 (hub_with (Some ''errored'')))
          (new_SessionFlusher transport_fulfilling 10))))"

section \<open>Properties\<close>

subsection \<open>Facts about sessions\<close>

lemma set_from_user_eq:
  "set_from_user c s =
     s\<lparr>Session.ipAddress :=
         (case SessionContext.user c of
            None \<Rightarrow> Session.ipAddress s
          | Some u \<Rightarrow> if truthy_str (ip_address u) then ip_address u else Session.ipAddress s),
       Session.did :=
         (case SessionContext.user c of
            None \<Rightarrow> Session.did s
          | Some u \<Rightarrow>
              if \<not> truthy (SessionContext.did c)
              then js_or (js_or (id' u) (email u)) (username u) else Session.did s)\<rparr>"
  by (simp add: set_from_user_def split: option.splits)

lemma set_sid_eq:
  "set_sid e c s =
     s\<lparr>Session.sid :=
         (case SessionContext.sid c of
            None \<Rightarrow> Session.sid s
          | Some x \<Rightarrow> if x = [] then Session.sid s else if length x = 32 then x else uuid4 e)\<rparr>"
  by (simp add: set_sid_def split: option.splits)

lemma set_init_eq:
  "set_init c s =
     s\<lparr>Session.init := (case SessionContext.init c of Some b \<Rightarrow> b | None \<Rightarrow> Session.init s)\<rparr>"
  by (simp add: set_init_def split: option.splits)

lemma set_did_eq:
  "set_did c s =
     s\<lparr>Session.did :=
         (if truthy (SessionContext.did c) then JStr (to_string (SessionContext.did c))
          else Session.did s)\<rparr>"
  by (simp add: set_did_def)

lemma set_started_eq:
  "set_started c s =
     s\<lparr>Session.started :=
         (case SessionContext.started c of Some v \<Rightarrow> v | None \<Rightarrow> Session.started s)\<rparr>"
  by (simp add: set_started_def split: option.splits)

lemma set_duration_eq:
  "set_duration c s =
     s\<lparr>Session.duration :=
         (case SessionContext.duration c of
            Some d \<Rightarrow> d
          | None \<Rightarrow> Session.timestamp s - Session.started s)\<rparr>"
  by (simp add: set_duration_def split: option.splits)

lemma set_release_eq:
  "set_release c s =
     s\<lparr>Session.release :=
         (if truthy_str (SessionContext.release c) then SessionContext.release c
          else Session.release s)\<rparr>"
  by (simp add: set_release_def)

lemma set_environment_eq:
  "set_environment c s =
     s\<lparr>Session.environment :=
         (if truthy_str (SessionContext.environment c) then SessionContext.environment c
          else Session.environment s)\<rparr>"
  by (simp add: set_environment_def)

lemma set_ipAddress_eq:
  "set_ipAddress c s =
     s\<lparr>Session.ipAddress :=
         (if truthy_str (SessionContext.ipAddress c) then SessionContext.ipAddress c
          else Session.ipAddress s)\<rparr>"
  by (simp add: set_ipAddress_def)

lemma set_userAgent_eq:
  "set_userAgent c s =
     s\<lparr>Session.userAgent :=
         (if truthy_str (SessionContext.userAgent c) then SessionContext.userAgent c
          else Session.userAgent s)\<rparr>"
  by (simp add: set_userAgent_def)

lemma set_errors_eq:
  "set_errors c s =
     s\<lparr>Session.errors :=
         (case SessionContext.errors c of Some n \<Rightarrow> n | None \<Rightarrow> Session.errors s)\<rparr>"
  by (simp add: set_errors_def split: option.splits)

lemma set_status_eq:
  "set_status c s =
     s\<lparr>Session.status :=
         (case SessionContext.status c of Some st \<Rightarrow> st | None \<Rightarrow> Session.status s)\<rparr>"
  by (simp add: set_status_def split: option.splits)

lemma set_sessionMode_eq:
  "set_sessionMode c s =
     s\<lparr>Session.sessionMode :=
         (case SessionContext.sessionMode c of
            Some m \<Rightarrow> m
          | None \<Rightarrow> Session.sessionMode s)\<rparr>"
  by (simp add: set_sessionMode_def split: option.splits)

lemmas set_eqs =
  set_from_user_eq set_timestamp_def set_sid_eq set_init_eq set_did_eq set_started_eq
  set_duration_eq set_release_eq set_environment_eq set_ipAddress_eq set_userAgent_eq
  set_errors_eq set_status_eq set_sessionMode_eq

lemma update_unfold:
  "update e c s =
     set_sessionMode c (set_status c (set_errors c (set_userAgent c (set_ipAddress c
       (set_environment c (set_release c (set_duration c (set_started c (set_did c
         (set_init c (set_sid e c (set_timestamp e c (set_from_user c s)))))))))))))"
  by (simp add: update_def)

lemma update_status:
  "Session.status (update e c s) =
     (case SessionContext.status c of Some st \<Rightarrow> st | None \<Rightarrow> Session.status s)"
  by (simp add: update_unfold set_eqs cong del: option.case_cong_weak if_weak_cong)

lemma update_timestamp:
  "Session.timestamp (update e c s) =
     (case SessionContext.timestamp c of Some t \<Rightarrow> if t \<noteq> 0 then t else now e | None \<Rightarrow> now e)"
  by (simp add: update_unfold set_eqs cong del: option.case_cong_weak if_weak_cong)

lemma update_started:
  "Session.started (update e c s) =
     (case SessionContext.started c of Some v \<Rightarrow> v | None \<Rightarrow> Session.started s)"
  by (simp add: update_unfold set_eqs cong del: option.case_cong_weak if_weak_cong)

lemma update_duration:
  "Session.duration (update e c s) =
     (case SessionContext.duration c of
        Some d \<Rightarrow> d
      | None \<Rightarrow> Session.timestamp (update e c s) - Session.started (update e c s))"
  by (simp add: update_unfold set_eqs cong del: option.case_cong_weak if_weak_cong)

lemma update_sid:
  "Session.sid (update e c s) =
     (case SessionContext.sid c of
        None \<Rightarrow> Session.sid s
      | Some x \<Rightarrow> if x = [] then Session.sid s else if length x = 32 then x else uuid4 e)"
  by (simp add: update_unfold set_eqs cong del: option.case_cong_weak if_weak_cong)

lemma update_did:
  "Session.did (update e c s) =
     (if truthy (SessionContext.did c) then JStr (to_string (SessionContext.did c))
      else case SessionContext.user c of
             None \<Rightarrow> Session.did s
           | Some u \<Rightarrow> js_or (js_or (id' u) (email u)) (username u))"
  by (simp add: update_unfold set_eqs cong del: option.case_cong_weak if_weak_cong split: option.splits)

lemma update_no_context:
  "update e no_context s =
     s\<lparr>Session.timestamp := now e, Session.duration := now e - Session.started s\<rparr>"
  by (simp add: update_unfold no_context_def set_eqs cong del: option.case_cong_weak if_weak_cong)

lemma update_status_only:
  "update e (no_context\<lparr>SessionContext.status := Some st\<rparr>) s =
     s\<lparr>Session.timestamp := now e, Session.duration := now e - Session.started s,
       Session.status := st\<rparr>"
  by (simp add: update_unfold no_context_def set_eqs cong del: option.case_cong_weak if_weak_cong)

lemma apply_op_context_of: "apply_op e x s = update e (context_of x s) s"
  by (cases x) (auto simp: context_of_def close_def split: option.splits)

lemma apply_op_sid_length:
  assumes "length (uuid4 e) = 32" and "length (Session.sid s) = 32"
  shows "length (Session.sid (apply_op e x s)) = 32"
  using assms by (simp add: apply_op_context_of update_sid split: option.splits)

lemma run_ops_sid_length:
  assumes "list_all (\<lambda>(e, x). length (uuid4 e) = 32) ops" and "length (Session.sid s) = 32"
  shows "length (Session.sid (run_ops ops s)) = 32"
  using assms
proof (induction ops arbitrary: s)
  case Nil
  then show ?case by simp
next
  case (Cons a ops)
  obtain e x where a: "a = (e, x)" by (cases a)
  from Cons.prems have "length (uuid4 e) = 32" and rest: "list_all (\<lambda>(e, x). length (uuid4 e) = 32) ops"
    by (simp_all add: a)
  then have "length (Session.sid (apply_op e x s)) = 32"
    using Cons.prems(2) by (simp add: apply_op_sid_length)
  with rest show ?case by (simp add: a Cons.IH)
qed

lemma new_Session_sid_length:
  assumes "length u = 32" and "length (uuid4 e0) = 32"
  shows "length (Session.sid (new_Session u t1 t2 e0 context)) = 32"
  using assms by (simp add: new_Session_def init_Session_def update_sid split: option.splits)

lemma update_times_ok:
  assumes "times_ok e c s" and "Session.started s \<le> t" and "t \<le> now e"
  shows "Session.started (update e c s) \<le> now e \<and> 0 \<le> Session.duration (update e c s)"
  using assms
  by (auto simp: times_ok_def update_duration update_timestamp update_started split: option.splits)

lemma run_ops_duration_nonneg:
  assumes "no_clock_skew t s ops" and "Session.started s \<le> t" and "0 \<le> Session.duration s"
  shows "0 \<le> Session.duration (run_ops ops s)"
  using assms
proof (induction ops arbitrary: t s)
  case Nil
  then show ?case by simp
next
  case (Cons a ops)
  obtain e x where a: "a = (e, x)" by (cases a)
  from Cons.prems(1) have le: "t \<le> now e" and ok: "times_ok e (context_of x s) s"
    and rest: "no_clock_skew (now e) (apply_op e x s) ops"
    by (simp_all add: a)
  from update_times_ok [OF ok Cons.prems(2) le]
  have "Session.started (apply_op e x s) \<le> now e" and "0 \<le> Session.duration (apply_op e x s)"
    by (simp_all add: apply_op_context_of)
  with rest show ?case by (simp add: a Cons.IH)
qed

lemma no_clock_skew_take:
  "no_clock_skew t s ops \<Longrightarrow> no_clock_skew t s (take n ops)"
proof (induction ops arbitrary: t s n)
  case Nil
  then show ?case by simp
next
  case (Cons a ops)
  obtain e x where a: "a = (e, x)" by (cases a)
  show ?case
  proof (cases n)
    case 0
    then show ?thesis by simp
  next
    case (Suc m)
    with Cons show ?thesis by (simp add: a)
  qed
qed

lemma dropUndefinedKeys_defined: "v \<noteq> JUndefined \<Longrightarrow> dropUndefinedKeys v \<noteq> JUndefined"
  by (cases v) simp_all

lemma no_undefined_dropUndefinedKeys: "no_undefined (dropUndefinedKeys v)"
proof (induction v rule: dropUndefinedKeys.induct)
  case (1 kvs)
  then show ?case
    by (auto simp: list_all_iff dropUndefinedKeys_defined)
qed simp_all

lemma toJSON_value:
  assumes "toJSON s = Inr j"
  shows "j = dropUndefinedKeys (JObj
                 [(''sid'', JStr (Session.sid s)),
                  (''init'', JBool (Session.init s)),
                  (''started'', JStr (iso_string (Session.started s))),
                  (''timestamp'', JStr (iso_string (Session.timestamp s))),
                  (''status'', JStr (status_string (Session.status s))),
                  (''session_mode'', JStr (mode_string (Session.sessionMode s))),
                  (''errors'', JNum (Session.errors s)),
                  (''did'', if is_number_or_string (Session.did s)
                            then JStr (to_string (Session.did s)) else JUndefined),
                  (''duration'', JNum (Session.duration s)),
                  (''attrs'', dropUndefinedKeys (JObj
                     [(''release'', opt_str (Session.release s)),
                      (''environment'', opt_str (Session.environment s)),
                      (''ip_address'', opt_str (Session.ipAddress s)),
                      (''user_agent'', opt_str (Session.userAgent s))]))])"
  using assms unfolding toJSON_def toISOString_def
  by (simp split: if_splits del: dropUndefinedKeys.simps)

lemma toJSON_returns:
  assumes "valid_time (Session.started s)" and "valid_time (Session.timestamp s)"
  shows "\<exists>j. toJSON s = Inr j"
  using assms by (simp add: toJSON_def toISOString_def)

lemma toJSON_throws:
  assumes "\<not> (valid_time (Session.started s) \<and> valid_time (Session.timestamp s))"
  shows "toJSON s = Inl RangeError"
  using assms by (auto simp: toJSON_def toISOString_def)

lemma no_undefined_js_get: "no_undefined j \<Longrightarrow> no_undefined (js_get j k)"
proof (cases j)
  case (JObj kvs)
  assume "no_undefined j"
  then have all: "\<forall>p \<in> set kvs. no_undefined (snd p)"
    by (auto simp: JObj list_all_iff)
  show ?thesis
  proof (cases "map_of kvs k")
    case None
    then show ?thesis by (simp add: JObj)
  next
    case (Some v)
    then have "(k, v) \<in> set kvs" by (rule map_of_SomeD)
    with all have "no_undefined v" by force
    with Some show ?thesis by (simp add: JObj)
  qed
qed simp_all

lemma did_of_object:
  assumes "a \<noteq> JUndefined" and "d = JUndefined \<or> (\<exists>x. d = JStr x)"
  shows "js_get (dropUndefinedKeys (JObj
           [(''sid'', JStr x1), (''init'', JBool x2), (''started'', JStr x3),
            (''timestamp'', JStr x4), (''status'', JStr x5), (''session_mode'', JStr x6),
            (''errors'', JNum x7), (''did'', d), (''duration'', JNum x8), (''attrs'', a)]))
           ''did'' = d"
    and "(''did'' \<in> set (js_keys (dropUndefinedKeys (JObj
           [(''sid'', JStr x1), (''init'', JBool x2), (''started'', JStr x3),
            (''timestamp'', JStr x4), (''status'', JStr x5), (''session_mode'', JStr x6),
            (''errors'', JNum x7), (''did'', d), (''duration'', JNum x8), (''attrs'', a)]))))
         = (d \<noteq> JUndefined)"
  using assms by auto

lemma toJSON_did:
  assumes "toJSON s = Inr j"
  shows "js_get j ''did'' =
           (if is_number_or_string (Session.did s) then JStr (to_string (Session.did s))
            else JUndefined)"
    and "(''did'' \<in> set (js_keys j)) = is_number_or_string (Session.did s)"
  unfolding toJSON_value [OF assms]
  by (subst did_of_object; simp)+

lemma new_Session_run_ops:
  "new_Session u t_timestamp t_started e (Some c)
     = run_ops [(e, Update c)] (init_Session u t_timestamp t_started)"
  by (simp add: new_Session_def)

subsection \<open>Facts about the flusher\<close>


lemma keys_obj_set:
  "map fst (obj_set tbl k v) =
     (if k \<in> set (map fst tbl) then map fst tbl else map fst tbl @ [k])"
proof (induction tbl)
  case Nil
  then show ?case by simp
next
  case (Cons p tbl)
  obtain k' v' where p: "p = (k', v')" by (cases p)
  show ?case
  proof (cases "k' = k")
    case True
    then show ?thesis by (simp add: p)
  next
    case False
    with Cons.IH show ?thesis by (simp add: p)
  qed
qed

lemma distinct_obj_set:
  "distinct (map fst tbl) \<Longrightarrow> distinct (map fst (obj_set tbl k v))"
  by (simp add: keys_obj_set)

lemma hour_of_day:
  "MakeDate (Day x) (MakeTime (HourFromTime x) 0 0 0) = (x div msPerHour) * msPerHour"
proof -
  define q where "q = x div 3600000"
  have "x div 86400000 = q div 24"
    by (simp add: q_def zdiv_zmult2_eq [symmetric])
  moreover have "q div 24 * 86400000 + (q mod 24) * 3600000 = q * 3600000"
    by presburger
  ultimately have "x div 86400000 * 86400000 + (q mod 24) * 3600000 = q * 3600000"
    by simp
  then show ?thesis
    by (simp add: MakeDate_def MakeTime_def Day_def HourFromTime_def msPerDay_def msPerHour_def
        q_def)
qed

lemma setMinutes_trunc:
  "setMinutes tza t 0 0 0 = UTC tza ((LocalTime tza t div msPerHour) * msPerHour)"
  by (simp only: setMinutes_def Let_def hour_of_day)

lemma setMinutes_fixed_zone:
  "setMinutes (fixed_zone z) t 0 0 0 = ((t + z) div msPerHour) * msPerHour - z"
  by (simp add: setMinutes_trunc LocalTime_def UTC_def fixed_zone_def)


lemma incrementSessionCount_attrs:
  "sessionAttrs (fst (incrementSessionCount env f)) =
     (case sessionAttrs f of
        Some a \<Rightarrow> Some a
      | None \<Rightarrow>
          (case client (hub env) of
             Some x \<Rightarrow> Some \<lparr>SessionAttrs.environment = Options.environment x,
                               SessionAttrs.release = Options.release x\<rparr>
           | None \<Rightarrow> Some \<lparr>SessionAttrs.environment = None, SessionAttrs.release = None\<rparr>))"
  by (simp add: incrementSessionCount_def Let_def split: option.splits)


lemma incrementSessionCount_other:
  "transport (fst (incrementSessionCount env f)) = transport f
   \<and> flushTimeout (fst (incrementSessionCount env f)) = flushTimeout f"
  by (simp add: incrementSessionCount_def Let_def split: option.splits)

lemma incrementSessionCount_pending:
  "pendingAggregates (fst (incrementSessionCount env f)) =
     obj_set (pendingAggregates f) (setMinutes (localTZA env) (date env) 0 0 0)
       (counted (requestSession (hub env))
          (stamped (setMinutes (localTZA env) (date env) 0 0 0)
             (case obj_get (pendingAggregates f) (setMinutes (localTZA env) (date env) 0 0 0) of
                Some b \<Rightarrow> b
              | None \<Rightarrow> empty_counts)))"
  by (simp add: incrementSessionCount_def counted_def stamped_def Let_def split: option.splits)


lemma incrementSessionCount_new:
  "pendingAggregates (fst (incrementSessionCount env (new_SessionFlusher t n))) =
     [(setMinutes (localTZA env) (date env) 0 0 0,
       counted (requestSession (hub env))
         (empty_counts\<lparr>AggregationCounts.started :=
            Some (iso_string (setMinutes (localTZA env) (date env) 0 0 0))\<rparr>))]"
  by (simp add: incrementSessionCount_pending new_SessionFlusher_def obj_get_def stamped_def
      empty_counts_def)






lemma key_0825_39: "bucket_key (flusher_env 1615883139000 h) = 1615881600000"
  by (simp add: bucket_key_def flusher_env_def setMinutes_fixed_zone msPerHour_def)

lemma iso_0800: "iso_string 1615881600000 = ''2021-03-16T08:00:00.000Z''"
  by code_simp

lemma length_Object_keys: "length (Object_keys tbl) = length tbl"
  by (simp add: Object_keys_def o_def sum_length_filter_compl)

lemma mset_Object_keys: "mset (Object_keys tbl) = mset (map fst tbl)"
  by (simp add: Object_keys_def)

lemma obj_get_own:
  "distinct (map fst tbl) \<Longrightarrow> p \<in> set tbl \<Longrightarrow> obj_get tbl (fst p) = Some (snd p)"
  by (cases p) (simp add: obj_get_def)

lemma obj_get_own_keys:
  "distinct (map fst tbl) \<Longrightarrow> map (obj_get tbl) (map fst tbl) = map (Some \<circ> snd) tbl"
  by (simp add: obj_get_own)

lemma Object_keys_no_index:
  assumes "list_all (\<lambda>k. \<not> is_array_index k) (map fst tbl)"
  shows "Object_keys tbl = map fst tbl"
proof -
  from assms have "filter is_array_index (map fst tbl) = []"
    and "filter (\<lambda>k. \<not> is_array_index k) (map fst tbl) = map fst tbl"
    by (auto simp: list_all_iff filter_empty_conv filter_id_conv)
  then show ?thesis by (simp add: Object_keys_def)
qed

lemma snapshot_every_bucket_once:
  assumes "distinct (map fst tbl)"
  shows "mset (map (obj_get tbl) (Object_keys tbl)) = mset (map (Some \<circ> snd) tbl)"
proof -
  have "mset (map (obj_get tbl) (Object_keys tbl)) = mset (map (obj_get tbl) (map fst tbl))"
    by (metis mset_map mset_Object_keys)
  then show ?thesis by (simp only: obj_get_own_keys [OF assms])
qed

lemma snapshot_insertion_order:
  assumes "distinct (map fst tbl)" and "list_all (\<lambda>k. \<not> is_array_index k) (map fst tbl)"
  shows "map (obj_get tbl) (Object_keys tbl) = map (Some \<circ> snd) tbl"
  by (simp only: Object_keys_no_index [OF assms(2)] obj_get_own_keys [OF assms(1)])

lemma flush_empty: "pendingAggregates f = [] \<Longrightarrow> flush f = (f, [], None)"
  by (simp add: flush_def Object_keys_def)

lemma flush_nonempty:
  assumes "pendingAggregates f \<noteq> []"
  shows "flush f =
     (f\<lparr>pendingAggregates := [], sessionAttrs := None\<rparr>,
      sendSessions (f\<lparr>pendingAggregates := [], sessionAttrs := None\<rparr>)
        \<lparr>attrs = sessionAttrs f,
         aggregates = map (obj_get (pendingAggregates f)) (Object_keys (pendingAggregates f))\<rparr>)"
proof -
  from assms have "length (Object_keys (pendingAggregates f)) \<noteq> 0"
    by (simp add: length_Object_keys)
  then show ?thesis by (simp add: flush_def Let_def)
qed

lemma flush_resets:
  assumes "pendingAggregates f \<noteq> []"
  shows "fst (flush f) = new_SessionFlusher (transport f) (flushTimeout f)"
  by (simp add: flush_nonempty [OF assms] new_SessionFlusher_def)

lemma sendSessions_cases:
  "sendSessions f p =
     (case Transport.sendSessions (transport f) of
        None \<Rightarrow>
          ([LoggerWarn ''Dropping session because custom transport doesn't implement sendSession''],
           None)
      | Some send \<Rightarrow>
          (case send p of
             Fulfilled \<Rightarrow> ([TransportSendSessions p], None)
           | Rejected reason \<Rightarrow>
               ([TransportSendSessions p,
                 LoggerError (''Error while sending session: '' @ reason)], None)
           | Throws x \<Rightarrow> ([TransportSendSessions p], Some x)))"
  by (simp add: sendSessions_def)

lemma Object_keys_ascending:
  assumes "sorted ks" and "\<forall>k \<in> set ks. 0 \<le> k"
  shows "sort (filter is_array_index ks) @ filter (\<lambda>k. \<not> is_array_index k) ks = ks"
  using assms
proof (induction ks)
  case Nil
  then show ?case by simp
next
  case (Cons k ks)
  then have le: "\<forall>x \<in> set ks. k \<le> x" and IH: "sort (filter is_array_index ks) @ filter (\<lambda>k. \<not> is_array_index k) ks = ks"
    by simp_all
  show ?case
  proof (cases "is_array_index k")
    case True
    from le have "\<forall>x \<in> set (sort (filter is_array_index ks)). k \<le> x" by simp
    then have "insort k (sort (filter is_array_index ks)) = k # sort (filter is_array_index ks)"
      by (simp add: insort_is_Cons)
    with True IH show ?thesis by simp
  next
    case False
    with Cons.prems(2) have "4294967295 \<le> k" by (simp add: is_array_index_def)
    with le have "\<forall>x \<in> set ks. \<not> is_array_index x" by (fastforce simp: is_array_index_def)
    then have "filter is_array_index ks = []" and "filter (\<lambda>k. \<not> is_array_index k) ks = ks"
      by (simp_all add: filter_empty_conv filter_id_conv)
    with False show ?thesis by simp
  qed
qed

lemma snapshot_ascending_order:
  assumes "distinct (map fst tbl)" and "sorted (map fst tbl)"
    and "list_all (\<lambda>k. 0 \<le> k) (map fst tbl)"
  shows "map (obj_get tbl) (Object_keys tbl) = map (Some \<circ> snd) tbl"
proof -
  from assms(3) have "\<forall>k \<in> set (map fst tbl). 0 \<le> k" by (simp add: list_all_iff)
  with assms(2) have "Object_keys tbl = map fst tbl"
    unfolding Object_keys_def by (rule Object_keys_ascending)
  then show ?thesis by (simp only: obj_get_own_keys [OF assms(1)])
qed

lemma flusher_two_hours_pending:
  "pendingAggregates flusher_two_hours =
     [(3600000, bucket ''1970-01-01T01:00:00.000Z'' (Some 1) None),
      (0, bucket ''1970-01-01T00:00:00.000Z'' None (Some 1))]"
proof -
  have k1: "setMinutes (fixed_zone 0) 3600000 0 0 0 = 3600000"
    and k0: "setMinutes (fixed_zone 0) 0 0 0 0 = 0"
    by (simp_all add: setMinutes_fixed_zone msPerHour_def)
  have i1: "iso_string 3600000 = ''1970-01-01T01:00:00.000Z''"
    and i0: "iso_string 0 = ''1970-01-01T00:00:00.000Z''"
    by code_simp+
  show ?thesis
    unfolding flusher_two_hours_def incrementSessionCount_pending [of "flusher_env 0 (hub_with None)"]
      incrementSessionCount_new
    by (simp add: flusher_env_def hub_with_def k1 k0 i1 i0 obj_get_def counted_def stamped_def
        empty_counts_def bucket_def)
qed

lemma flusher_one_bucket_pending:
  "pendingAggregates flusher_one_bucket =
     [(1615881600000, bucket ''2021-03-16T08:00:00.000Z'' (Some 1) None)]"
proof -
  have k: "setMinutes (fixed_zone 0) 1615883130123 0 0 0 = 1615881600000"
    by (simp add: setMinutes_fixed_zone msPerHour_def)
  show ?thesis
    unfolding flusher_one_bucket_def incrementSessionCount_new
    by (simp add: k iso_0800 flusher_env_def hub_with_def counted_def empty_counts_def
        bucket_def)
qed

lemma bucket_key_hour:
  "bucket_key env =
     UTC (localTZA env) ((LocalTime (localTZA env) (date env) div msPerHour) * msPerHour)"
  by (simp only: bucket_key_def setMinutes_trunc)

lemma bucket_key_fixed_zone:
  assumes "localTZA env = fixed_zone z"
  shows "bucket_key env = date env - (date env + z) mod msPerHour"
proof -
  have "(date env + z) div msPerHour * msPerHour = (date env + z) - (date env + z) mod msPerHour"
    by (simp add: algebra_simps minus_mod_eq_mult_div)
  then show ?thesis by (simp add: bucket_key_def assms setMinutes_fixed_zone)
qed

text \<open>
  At a daylight-saving change the two offsets differ. In New York at 2021-11-07T06:30:00Z
  (01:30 local, standard time) the top of the local hour, 01:00, is read as daylight-saving
  time: the key is 05:00:00Z, an hour and a half before the call, where a fixed offset of five
  hours gives 06:00:00Z.
\<close>

lemma bucket_key_daylight_saving:
  "setMinutes new_york_autumn_2021 1636266600000 0 0 0 = 1636261200000
   \<and> setMinutes (fixed_zone (- 18000000)) 1636266600000 0 0 0 = 1636264800000"
  by (simp add: setMinutes_trunc LocalTime_def UTC_def new_york_autumn_2021_def fixed_zone_def
      msPerHour_def)

lemma incrementSessionCount_distinct:
  "distinct (map fst (pendingAggregates f)) \<Longrightarrow>
     distinct (map fst (pendingAggregates (fst (incrementSessionCount env f))))"
  by (simp only: incrementSessionCount_pending distinct_obj_set)

lemma flush_distinct:
  "distinct (map fst (pendingAggregates f)) \<Longrightarrow>
     distinct (map fst (pendingAggregates (fst (flush f))))"
  by (cases "pendingAggregates f = []") (simp_all add: flush_empty flush_nonempty)

lemma new_SessionFlusher_distinct:
  "distinct (map fst (pendingAggregates (new_SessionFlusher t n)))"
  by (simp add: new_SessionFlusher_def)

text \<open>
  In a time zone half an hour off the hour (here UTC+05:30) a clock that starts at the epoch
  and runs forward gives a negative key first (23:30 of the day before) and an array index
  half an hour later; \<^verbatim>\<open>Object.keys\<close> lists the second key first.
\<close>

lemma Object_keys_half_hour_zone:
  "setMinutes (fixed_zone 19800000) 0 0 0 0 = - 1800000
   \<and> setMinutes (fixed_zone 19800000) 1800000 0 0 0 = 1800000
   \<and> Object_keys [(- 1800000, b1), (1800000, b2)] = [1800000, - 1800000]"
  by (simp add: setMinutes_fixed_zone msPerHour_def Object_keys_def is_array_index_def)

lemma flusher_two_buckets_pending:
  "pendingAggregates flusher_two_buckets =
     [(1615885200000, bucket ''2021-03-16T09:00:00.000Z'' (Some 1) None),
      (1615881600000, bucket ''2021-03-16T08:00:00.000Z'' None (Some 1))]"
proof -
  have k1: "setMinutes (fixed_zone 0) 1615885260000 0 0 0 = 1615885200000"
    and k0: "setMinutes (fixed_zone 0) 1615883130123 0 0 0 = 1615881600000"
    by (simp_all add: setMinutes_fixed_zone msPerHour_def)
  have i1: "iso_string 1615885200000 = ''2021-03-16T09:00:00.000Z''"
    by code_simp
  show ?thesis
    unfolding flusher_two_buckets_def
      incrementSessionCount_pending [of "flusher_env 1615883130123 (hub_with None)"]
      incrementSessionCount_new
    by (simp add: flusher_env_def hub_with_def k1 k0 i1 iso_0800 obj_get_def counted_def
        stamped_def empty_counts_def bucket_def)
qed

subsection \<open>The claims\<close>

text \<open>
  Claim C1 says that the bucket key of \<^verbatim>\<open>incrementSessionCount()\<close>, and the \<^verbatim>\<open>started\<close>
  rendered from it, is the current time with only its seconds and milliseconds zeroed. The
  code zeroes the minutes of the local time as well: the key is the top of the current hour
  of local time, converted back to UTC. At 2021-03-16T08:25:30.123Z in a UTC time zone the key is
  08:00:00.000 and \<^verbatim>\<open>started\<close> is rendered from that, where zeroing the seconds and
  milliseconds only (\<^verbatim>\<open>setSeconds(0, 0)\<close>) gives 08:25:00.000.
\<close>

theorem incrementSessionCount_hour_bucket:
  "bucket_key env =
     UTC (localTZA env) ((LocalTime (localTZA env) (date env) div msPerHour) * msPerHour)
   \<and> pendingAggregates
     (fst (incrementSessionCount
        \<lparr>date = 1615883130123, localTZA = fixed_zone 0,
         hub = \<lparr>client = None, requestSession = None\<rparr>\<rparr>
        (new_SessionFlusher \<lparr>Transport.sendSessions = None\<rparr> 10)))
   = [(1615881600000,
       \<lparr>AggregationCounts.started = Some ''2021-03-16T08:00:00.000Z'', errored = None,
        exited = None, crashed = None, abnormal = None\<rparr>)]
   \<and> setSeconds (fixed_zone 0) 1615883130123 0 0 = 1615883100000
   \<and> iso_string 1615883130123 = ''2021-03-16T08:25:30.123Z''
   \<and> iso_string 1615883100000 = ''2021-03-16T08:25:00.000Z''"
proof (intro conjI)
  show "bucket_key env =
     UTC (localTZA env) ((LocalTime (localTZA env) (date env) div msPerHour) * msPerHour)"
    by (rule bucket_key_hour)
  have key: "setMinutes (fixed_zone 0) 1615883130123 0 0 0 = 1615881600000"
    by (simp add: setMinutes_fixed_zone msPerHour_def)
  have iso: "iso_string 1615881600000 = ''2021-03-16T08:00:00.000Z''"
    by code_simp
  show "pendingAggregates
     (fst (incrementSessionCount
        \<lparr>date = 1615883130123, localTZA = fixed_zone 0,
         hub = \<lparr>client = None, requestSession = None\<rparr>\<rparr>
        (new_SessionFlusher \<lparr>Transport.sendSessions = None\<rparr> 10)))
   = [(1615881600000,
       \<lparr>AggregationCounts.started = Some ''2021-03-16T08:00:00.000Z'', errored = None,
        exited = None, crashed = None, abnormal = None\<rparr>)]"
    by (simp add: incrementSessionCount_new key iso counted_def empty_counts_def)
  show "setSeconds (fixed_zone 0) 1615883130123 0 0 = 1615883100000"
    by (simp add: setSeconds_def LocalTime_def UTC_def fixed_zone_def MakeDate_def MakeTime_def
        Day_def HourFromTime_def MinFromTime_def msPerDay_def msPerHour_def msPerMinute_def)
  show "iso_string 1615883130123 = ''2021-03-16T08:25:30.123Z''"
    by code_simp
  show "iso_string 1615883100000 = ''2021-03-16T08:25:00.000Z''"
    by code_simp
qed



text \<open>
  Claim C3, as amended. \<^verbatim>\<open>flush()\<close> on an empty table changes nothing and calls nothing.
  On a non-empty table it empties the table and clears \<^verbatim>\<open>_sessionAttrs\<close>, and hands to
  \<^verbatim>\<open>sendSessions\<close> (which already sees the cleared state) the former attributes and the
  value of every bucket, once each, in the order of \<^verbatim>\<open>Object.keys\<close>: the keys that are
  array indices in ascending order, then the others in creation order. This is the creation
  order when no key is an array index, and when the keys were created in ascending order
  and none is negative. After the flush the flusher is as newly constructed: the next
  \<^verbatim>\<open>incrementSessionCount()\<close> leaves one bucket, new, and takes the attributes from the
  client again.
\<close>

theorem flush_snapshots_and_resets:
  "(pendingAggregates f = [] \<longrightarrow> flush f = (f, [], None))
   \<and> (pendingAggregates f \<noteq> [] \<longrightarrow>
        fst (flush f) = f\<lparr>pendingAggregates := [], sessionAttrs := None\<rparr>
        \<and> snd (flush f) =
            sendSessions (fst (flush f))
              \<lparr>attrs = sessionAttrs f,
               aggregates =
                 map (obj_get (pendingAggregates f)) (Object_keys (pendingAggregates f))\<rparr>
        \<and> Object_keys (pendingAggregates f) =
            sort (filter is_array_index (map fst (pendingAggregates f)))
            @ filter (\<lambda>k. \<not> is_array_index k) (map fst (pendingAggregates f))
        \<and> (distinct (map fst (pendingAggregates f)) \<longrightarrow>
              mset (map (obj_get (pendingAggregates f)) (Object_keys (pendingAggregates f)))
              = mset (map (Some \<circ> snd) (pendingAggregates f)))
        \<and> (distinct (map fst (pendingAggregates f))
            \<and> list_all (\<lambda>k. \<not> is_array_index k) (map fst (pendingAggregates f)) \<longrightarrow>
              map (obj_get (pendingAggregates f)) (Object_keys (pendingAggregates f))
              = map (Some \<circ> snd) (pendingAggregates f))
        \<and> (distinct (map fst (pendingAggregates f))
            \<and> sorted (map fst (pendingAggregates f))
            \<and> list_all (\<lambda>k. 0 \<le> k) (map fst (pendingAggregates f)) \<longrightarrow>
              map (obj_get (pendingAggregates f)) (Object_keys (pendingAggregates f))
              = map (Some \<circ> snd) (pendingAggregates f))
        \<and> fst (flush f) = new_SessionFlusher (transport f) (flushTimeout f)
        \<and> pendingAggregates (fst (incrementSessionCount env (fst (flush f)))) =
            [(bucket_key env,
              counted (requestSession (hub env))
                (empty_counts\<lparr>AggregationCounts.started := Some (iso_string (bucket_key env))\<rparr>))]
        \<and> sessionAttrs (fst (incrementSessionCount env (fst (flush f)))) =
            Some \<lparr>SessionAttrs.environment =
                    (case client (hub env) of Some x \<Rightarrow> Options.environment x | None \<Rightarrow> None),
                  SessionAttrs.release =
                    (case client (hub env) of Some x \<Rightarrow> Options.release x | None \<Rightarrow> None)\<rparr>)"
proof (intro conjI impI)
  assume "pendingAggregates f = []"
  then show "flush f = (f, [], None)" by (rule flush_empty)
next
  assume ne: "pendingAggregates f \<noteq> []"
  show "fst (flush f) = f\<lparr>pendingAggregates := [], sessionAttrs := None\<rparr>"
    by (simp add: flush_nonempty [OF ne])
  show "snd (flush f) =
            sendSessions (fst (flush f))
              \<lparr>attrs = sessionAttrs f,
               aggregates =
                 map (obj_get (pendingAggregates f)) (Object_keys (pendingAggregates f))\<rparr>"
    by (simp only: flush_nonempty [OF ne] fst_conv snd_conv)
  show "Object_keys (pendingAggregates f) =
            sort (filter is_array_index (map fst (pendingAggregates f)))
            @ filter (\<lambda>k. \<not> is_array_index k) (map fst (pendingAggregates f))"
    by (rule Object_keys_def)
  show reset: "fst (flush f) = new_SessionFlusher (transport f) (flushTimeout f)"
    by (rule flush_resets [OF ne])
  show "pendingAggregates (fst (incrementSessionCount env (fst (flush f)))) =
            [(bucket_key env,
              counted (requestSession (hub env))
                (empty_counts\<lparr>AggregationCounts.started := Some (iso_string (bucket_key env))\<rparr>))]"
    by (simp only: reset incrementSessionCount_new bucket_key_def)
  show "sessionAttrs (fst (incrementSessionCount env (fst (flush f)))) =
            Some \<lparr>SessionAttrs.environment =
                    (case client (hub env) of Some x \<Rightarrow> Options.environment x | None \<Rightarrow> None),
                  SessionAttrs.release =
                    (case client (hub env) of Some x \<Rightarrow> Options.release x | None \<Rightarrow> None)\<rparr>"
    by (simp add: reset incrementSessionCount_attrs new_SessionFlusher_def split: option.splits)
next
  assume "pendingAggregates f \<noteq> []" and "distinct (map fst (pendingAggregates f))"
  then show "mset (map (obj_get (pendingAggregates f)) (Object_keys (pendingAggregates f)))
              = mset (map (Some \<circ> snd) (pendingAggregates f))"
    by (simp only: snapshot_every_bucket_once)
next
  assume "pendingAggregates f \<noteq> []"
    and "distinct (map fst (pendingAggregates f))
            \<and> list_all (\<lambda>k. \<not> is_array_index k) (map fst (pendingAggregates f))"
  then show "map (obj_get (pendingAggregates f)) (Object_keys (pendingAggregates f))
              = map (Some \<circ> snd) (pendingAggregates f)"
    by (simp only: snapshot_insertion_order)
next
  assume "pendingAggregates f \<noteq> []"
    and "distinct (map fst (pendingAggregates f))
            \<and> sorted (map fst (pendingAggregates f))
            \<and> list_all (\<lambda>k. 0 \<le> k) (map fst (pendingAggregates f))"
  then show "map (obj_get (pendingAggregates f)) (Object_keys (pendingAggregates f))
              = map (Some \<circ> snd) (pendingAggregates f)"
    by (simp only: snapshot_ascending_order)
qed

text \<open>
  Claim C3 as stated fails: with the clock at 01:00 and then at 00:00 of 1970-01-01 (UTC),
  the bucket of key 3600000 is created before the bucket of key 0, and \<^verbatim>\<open>flush()\<close> sends
  the bucket of key 0 first, since both keys are array indices.
\<close>

theorem flush_not_in_creation_order:
  "pendingAggregates flusher_two_hours =
     [(3600000, bucket ''1970-01-01T01:00:00.000Z'' (Some 1) None),
      (0, bucket ''1970-01-01T00:00:00.000Z'' None (Some 1))]
   \<and> fst (snd (flush flusher_two_hours)) =
       [TransportSendSessions
          \<lparr>attrs = Some \<lparr>SessionAttrs.environment = None, SessionAttrs.release = None\<rparr>,
           aggregates =
             [Some (bucket ''1970-01-01T00:00:00.000Z'' None (Some 1)),
              Some (bucket ''1970-01-01T01:00:00.000Z'' (Some 1) None)]\<rparr>]
   \<and> [Some (bucket ''1970-01-01T00:00:00.000Z'' None (Some 1)),
       Some (bucket ''1970-01-01T01:00:00.000Z'' (Some 1) None)]
      \<noteq> map (Some \<circ> snd) (pendingAggregates flusher_two_hours)"
proof (intro conjI)
  show p: "pendingAggregates flusher_two_hours =
     [(3600000, bucket ''1970-01-01T01:00:00.000Z'' (Some 1) None),
      (0, bucket ''1970-01-01T00:00:00.000Z'' None (Some 1))]"
    by (rule flusher_two_hours_pending)
  have a: "sessionAttrs flusher_two_hours
      = Some \<lparr>SessionAttrs.environment = None, SessionAttrs.release = None\<rparr>"
    by (simp add: flusher_two_hours_def incrementSessionCount_attrs new_SessionFlusher_def
        flusher_env_def hub_with_def)
  have t: "transport flusher_two_hours = transport_fulfilling"
    by (simp add: flusher_two_hours_def incrementSessionCount_other new_SessionFlusher_def)
  have ne: "pendingAggregates flusher_two_hours \<noteq> []"
    by (simp add: p)
  show "fst (snd (flush flusher_two_hours)) =
       [TransportSendSessions
          \<lparr>attrs = Some \<lparr>SessionAttrs.environment = None, SessionAttrs.release = None\<rparr>,
           aggregates =
             [Some (bucket ''1970-01-01T00:00:00.000Z'' None (Some 1)),
              Some (bucket ''1970-01-01T01:00:00.000Z'' (Some 1) None)]\<rparr>]"
    by (simp add: flush_nonempty [OF ne] p a t sendSessions_def transport_fulfilling_def
        Object_keys_def is_array_index_def obj_get_def)
  show "[Some (bucket ''1970-01-01T00:00:00.000Z'' None (Some 1)),
       Some (bucket ''1970-01-01T01:00:00.000Z'' (Some 1) None)]
      \<noteq> map (Some \<circ> snd) (pendingAggregates flusher_two_hours)"
    by (simp add: p bucket_def)
qed

text \<open>
  Claim C3, as amended, at a new flusher, at a flusher with one bucket of 2021, and at one
  with two buckets of 2021 created in descending order of their keys, which are sent in the
  order of their creation.
\<close>

theorem flush_snapshots_and_resets_witness:
  "pendingAggregates (new_SessionFlusher transport_fulfilling 10) = []
   \<and> flush (new_SessionFlusher transport_fulfilling 10)
       = (new_SessionFlusher transport_fulfilling 10, [], None)
   \<and> pendingAggregates flusher_one_bucket \<noteq> []
   \<and> distinct (map fst (pendingAggregates flusher_one_bucket))
   \<and> list_all (\<lambda>k. \<not> is_array_index k) (map fst (pendingAggregates flusher_one_bucket))
   \<and> sorted (map fst (pendingAggregates flusher_one_bucket))
   \<and> list_all (\<lambda>k. 0 \<le> k) (map fst (pendingAggregates flusher_one_bucket))
   \<and> pendingAggregates (fst (flush flusher_one_bucket)) = []
   \<and> sessionAttrs (fst (flush flusher_one_bucket)) = None
   \<and> snd (flush flusher_one_bucket) =
       ([TransportSendSessions
           \<lparr>attrs = Some \<lparr>SessionAttrs.environment = None, SessionAttrs.release = None\<rparr>,
            aggregates = [Some (bucket ''2021-03-16T08:00:00.000Z'' (Some 1) None)]\<rparr>],
        None)
   \<and> map fst (pendingAggregates
        (fst (incrementSessionCount (flusher_env 1615883139000 (hub_with None))
           (fst (flush flusher_one_bucket))))) = [1615881600000]
   \<and> pendingAggregates flusher_two_buckets \<noteq> []
   \<and> distinct (map fst (pendingAggregates flusher_two_buckets))
   \<and> list_all (\<lambda>k. \<not> is_array_index k) (map fst (pendingAggregates flusher_two_buckets))
   \<and> snd (flush flusher_two_buckets) =
       ([TransportSendSessions
           \<lparr>attrs = Some \<lparr>SessionAttrs.environment = None, SessionAttrs.release = None\<rparr>,
            aggregates =
              [Some (bucket ''2021-03-16T09:00:00.000Z'' (Some 1) None),
               Some (bucket ''2021-03-16T08:00:00.000Z'' None (Some 1))]\<rparr>],
        None)"
proof -
  note p = flusher_one_bucket_pending
  have a: "sessionAttrs flusher_one_bucket
      = Some \<lparr>SessionAttrs.environment = None, SessionAttrs.release = None\<rparr>"
    by (simp add: flusher_one_bucket_def incrementSessionCount_attrs new_SessionFlusher_def
        flusher_env_def hub_with_def)
  have ne: "pendingAggregates flusher_one_bucket \<noteq> []"
    by (simp add: p)
  have "transport flusher_one_bucket = transport_fulfilling"
    by (simp add: flusher_one_bucket_def incrementSessionCount_other new_SessionFlusher_def)
  then have t: "transport (fst (flush flusher_one_bucket)) = transport_fulfilling"
    by (simp add: flush_nonempty [OF ne])
  have e: "pendingAggregates (new_SessionFlusher transport_fulfilling 10) = []"
    by (simp add: new_SessionFlusher_def)
  have hyps: "pendingAggregates flusher_one_bucket \<noteq> []"
    "distinct (map fst (pendingAggregates flusher_one_bucket))"
    "list_all (\<lambda>k. \<not> is_array_index k) (map fst (pendingAggregates flusher_one_bucket))"
    "sorted (map fst (pendingAggregates flusher_one_bucket))"
    "list_all (\<lambda>k. 0 \<le> k) (map fst (pendingAggregates flusher_one_bucket))"
    by (simp_all add: p is_array_index_def)
  from flush_snapshots_and_resets [of "new_SessionFlusher transport_fulfilling 10"] e
  have c0: "flush (new_SessionFlusher transport_fulfilling 10)
       = (new_SessionFlusher transport_fulfilling 10, [], None)"
    by blast
  note inst = flush_snapshots_and_resets
    [of flusher_one_bucket "flusher_env 1615883139000 (hub_with None)"]
  from inst hyps
  have c1: "fst (flush flusher_one_bucket)
        = flusher_one_bucket\<lparr>pendingAggregates := [], sessionAttrs := None\<rparr>"
    by blast
  from inst hyps
  have c2: "snd (flush flusher_one_bucket) =
            sendSessions (fst (flush flusher_one_bucket))
              \<lparr>attrs = sessionAttrs flusher_one_bucket,
               aggregates = map (obj_get (pendingAggregates flusher_one_bucket))
                 (Object_keys (pendingAggregates flusher_one_bucket))\<rparr>"
    by blast
  from inst hyps
  have c3: "pendingAggregates
        (fst (incrementSessionCount (flusher_env 1615883139000 (hub_with None))
           (fst (flush flusher_one_bucket)))) =
        [(bucket_key (flusher_env 1615883139000 (hub_with None)),
              counted (requestSession (hub (flusher_env 1615883139000 (hub_with None))))
                (empty_counts\<lparr>AggregationCounts.started :=
                   Some (iso_string (bucket_key (flusher_env 1615883139000 (hub_with None))))\<rparr>))]"
    by blast
  from inst hyps
  have c4: "map (obj_get (pendingAggregates flusher_one_bucket))
        (Object_keys (pendingAggregates flusher_one_bucket))
      = map (Some \<circ> snd) (pendingAggregates flusher_one_bucket)"
    by blast
  have s: "snd (flush flusher_one_bucket) =
       ([TransportSendSessions
           \<lparr>attrs = Some \<lparr>SessionAttrs.environment = None, SessionAttrs.release = None\<rparr>,
            aggregates = [Some (bucket ''2021-03-16T08:00:00.000Z'' (Some 1) None)]\<rparr>],
        None)"
    unfolding c2 c4 by (simp add: sendSessions_def t transport_fulfilling_def a p)
  have c5: "map fst (pendingAggregates
        (fst (incrementSessionCount (flusher_env 1615883139000 (hub_with None))
           (fst (flush flusher_one_bucket))))) = [1615881600000]"
    unfolding c3 by (simp add: key_0825_39)
  have c6: "pendingAggregates (fst (flush flusher_one_bucket)) = []"
    "sessionAttrs (fst (flush flusher_one_bucket)) = None"
    by (simp_all add: c1)
  have two: "pendingAggregates flusher_two_buckets \<noteq> []
     \<and> distinct (map fst (pendingAggregates flusher_two_buckets))
     \<and> list_all (\<lambda>k. \<not> is_array_index k) (map fst (pendingAggregates flusher_two_buckets))
     \<and> snd (flush flusher_two_buckets) =
         ([TransportSendSessions
             \<lparr>attrs = Some \<lparr>SessionAttrs.environment = None, SessionAttrs.release = None\<rparr>,
              aggregates =
                [Some (bucket ''2021-03-16T09:00:00.000Z'' (Some 1) None),
                 Some (bucket ''2021-03-16T08:00:00.000Z'' None (Some 1))]\<rparr>],
          None)"
  proof -
    note p = flusher_two_buckets_pending
    have a: "sessionAttrs flusher_two_buckets
        = Some \<lparr>SessionAttrs.environment = None, SessionAttrs.release = None\<rparr>"
      by (simp add: flusher_two_buckets_def incrementSessionCount_attrs new_SessionFlusher_def
          flusher_env_def hub_with_def)
    have hyps: "pendingAggregates flusher_two_buckets \<noteq> []"
      "distinct (map fst (pendingAggregates flusher_two_buckets))"
      "list_all (\<lambda>k. \<not> is_array_index k) (map fst (pendingAggregates flusher_two_buckets))"
      by (simp_all add: p is_array_index_def)
    have "transport flusher_two_buckets = transport_fulfilling"
      by (simp add: flusher_two_buckets_def incrementSessionCount_other new_SessionFlusher_def)
    then have t: "transport (fst (flush flusher_two_buckets)) = transport_fulfilling"
      by (simp add: flush_nonempty [OF hyps(1)])
    note inst = flush_snapshots_and_resets [of flusher_two_buckets "flusher_env 0 (hub_with None)"]
    from inst hyps
    have c2: "snd (flush flusher_two_buckets) =
              sendSessions (fst (flush flusher_two_buckets))
                \<lparr>attrs = sessionAttrs flusher_two_buckets,
                 aggregates = map (obj_get (pendingAggregates flusher_two_buckets))
                   (Object_keys (pendingAggregates flusher_two_buckets))\<rparr>"
      by blast
    from inst hyps
    have c4: "map (obj_get (pendingAggregates flusher_two_buckets))
          (Object_keys (pendingAggregates flusher_two_buckets))
        = map (Some \<circ> snd) (pendingAggregates flusher_two_buckets)"
      by blast
    have "snd (flush flusher_two_buckets) =
         ([TransportSendSessions
             \<lparr>attrs = Some \<lparr>SessionAttrs.environment = None, SessionAttrs.release = None\<rparr>,
              aggregates =
                [Some (bucket ''2021-03-16T09:00:00.000Z'' (Some 1) None),
                 Some (bucket ''2021-03-16T08:00:00.000Z'' None (Some 1))]\<rparr>],
          None)"
      unfolding c2 c4 by (simp add: sendSessions_def t transport_fulfilling_def a p)
    with hyps show ?thesis by simp
  qed
  show ?thesis
    using e c0 hyps s c5 c6 two by simp
qed

text \<open>
  Claim C4. \<^verbatim>\<open>close()\<close> without an argument sets the status to \<open>Exited\<close> when the
  current status is \<open>Ok\<close> and leaves every other status as it is; in both cases the call
  is an update that refreshes \<^verbatim>\<open>timestamp\<close> (to the clock) and \<^verbatim>\<open>duration\<close> (to the
  clock minus \<^verbatim>\<open>started\<close>) and changes nothing else. A second \<^verbatim>\<open>close()\<close> does not
  change the status again.
\<close>

theorem close_without_argument:
  "close e None s =
     s\<lparr>Session.timestamp := now e, Session.duration := now e - Session.started s,
       Session.status := (if Session.status s = Ok then Exited else Session.status s)\<rparr>
   \<and> Session.status (close e' None (close e None s)) = Session.status (close e None s)"
  by (simp add: close_def update_no_context update_status_only)

text \<open>
  Claim C5. After any sequence of earlier calls, an \<^verbatim>\<open>update\<close> whose context gives no
  numeric \<^verbatim>\<open>duration\<close> leaves \<^verbatim>\<open>duration\<close> equal to the just-updated \<^verbatim>\<open>timestamp\<close>
  minus the just-updated \<^verbatim>\<open>started\<close>; a numeric \<^verbatim>\<open>duration\<close> in the context is stored
  as it is. The just-updated \<^verbatim>\<open>timestamp\<close> is the truthy \<^verbatim>\<open>context.timestamp\<close> or else
  the clock; the just-updated \<^verbatim>\<open>started\<close> is the numeric \<^verbatim>\<open>context.started\<close> or else
  the value before the call.
\<close>

theorem update_duration_recomputed:
  "(SessionContext.duration c = None \<longrightarrow>
      Session.duration (update e c (run_ops ops s)) =
        Session.timestamp (update e c (run_ops ops s))
        - Session.started (update e c (run_ops ops s)))
   \<and> (\<forall>d. SessionContext.duration c = Some d \<longrightarrow>
          Session.duration (update e c (run_ops ops s)) = d)
   \<and> Session.timestamp (update e c (run_ops ops s)) =
       (case SessionContext.timestamp c of
          Some t \<Rightarrow> if t \<noteq> 0 then t else now e
        | None \<Rightarrow> now e)
   \<and> Session.started (update e c (run_ops ops s)) =
       (case SessionContext.started c of
          Some v \<Rightarrow> v
        | None \<Rightarrow> Session.started (run_ops ops s))"
  by (simp add: update_duration update_timestamp update_started)

text \<open>
  Claim C5 at a session created at time 1000: an update at 2000 with \<^verbatim>\<open>duration: 7\<close>
  stores 7; a later update at 5000 with the empty context gives 5000 - 1000.
\<close>

theorem update_duration_recomputed_witness:
  "SessionContext.duration no_context = None
   \<and> Session.duration
        (update (env_at 5000) no_context
           (run_ops [(env_at 2000, Update (no_context\<lparr>SessionContext.duration := Some 7\<rparr>))]
              session_a)) = 4000
   \<and> SessionContext.duration (no_context\<lparr>SessionContext.duration := Some 7\<rparr>) = Some 7
   \<and> Session.duration
        (update (env_at 2000) (no_context\<lparr>SessionContext.duration := Some 7\<rparr>)
           (run_ops [] session_a)) = 7"
  using update_duration_recomputed [of no_context "env_at 5000"
      "[(env_at 2000, Update (no_context\<lparr>SessionContext.duration := Some 7\<rparr>))]" session_a]
    update_duration_recomputed [of "no_context\<lparr>SessionContext.duration := Some 7\<rparr>"
      "env_at 2000" "[]" session_a]
  by (simp add: no_context_def env_at_def session_a_def init_Session_def update_started)

text \<open>
  Claim C6, as amended. Provided \<^verbatim>\<open>uuid4()\<close> returns identifiers of 32 characters, the
  \<^verbatim>\<open>sid\<close> of a session has 32 characters after the constructor and after every sequence
  of \<^verbatim>\<open>update\<close> and \<^verbatim>\<open>close\<close> calls. An \<^verbatim>\<open>update\<close> takes a \<^verbatim>\<open>context.sid\<close> of
  exactly 32 characters as it is and replaces any other non-empty one by a fresh identifier.
  A \<^verbatim>\<open>context.sid\<close> that is the empty string is neither taken nor replaced by a fresh
  identifier: like an absent one it leaves the current \<^verbatim>\<open>sid\<close> in place.
\<close>

theorem sid_has_32_characters:
  assumes "length u = 32" and "length (uuid4 e0) = 32"
    and "list_all (\<lambda>(e, x). length (uuid4 e) = 32) ops"
  shows "length (Session.sid (run_ops ops (new_Session u t1 t2 e0 context))) = 32
    \<and> Session.sid (update e c s) =
        (case SessionContext.sid c of
           None \<Rightarrow> Session.sid s
         | Some x \<Rightarrow> if x = [] then Session.sid s else if length x = 32 then x else uuid4 e)"
  using assms by (simp add: run_ops_sid_length new_Session_sid_length update_sid)

text \<open>
  Claim C6 as stated fails: the supplied \<^verbatim>\<open>sid: ''\<close> has not 32 characters, yet no fresh
  identifier is generated; the session keeps the identifier it had.
\<close>

theorem update_empty_sid_keeps_sid:
  "SessionContext.sid (no_context\<lparr>SessionContext.sid := Some ''''\<rparr>) = Some ''''
   \<and> length '''' \<noteq> (32::nat)
   \<and> Session.sid (update (env_at 2000) (no_context\<lparr>SessionContext.sid := Some ''''\<rparr>) session_a)
       = Session.sid session_a
   \<and> Session.sid (update (env_at 2000) (no_context\<lparr>SessionContext.sid := Some ''''\<rparr>) session_a)
       \<noteq> uuid4 (env_at 2000)"
  by (simp add: update_sid no_context_def env_at_def session_a_def init_Session_def sid_a_def
      sid_b_def)

text \<open>
  Claim C6, as amended, at a new session: \<^verbatim>\<open>update({sid: 'abc'})\<close> replaces the identifier
  by the fresh one, and the identifier still has 32 characters after a \<^verbatim>\<open>close()\<close>.
\<close>

theorem sid_has_32_characters_witness:
  "length sid_a = 32 \<and> length (uuid4 (env_at 1000)) = 32
   \<and> list_all (\<lambda>(e, x). length (uuid4 e) = 32)
        [(env_at 2000, Update (no_context\<lparr>SessionContext.sid := Some ''abc''\<rparr>)),
         (env_at 3000, Close None)]
   \<and> length (Session.sid
        (run_ops
           [(env_at 2000, Update (no_context\<lparr>SessionContext.sid := Some ''abc''\<rparr>)),
            (env_at 3000, Close None)]
           (new_Session sid_a 1000 1000 (env_at 1000) None))) = 32
   \<and> Session.sid (update (env_at 2000) (no_context\<lparr>SessionContext.sid := Some ''abc''\<rparr>) session_a)
       = sid_b"
  using sid_has_32_characters [of sid_a "env_at 1000"
      "[(env_at 2000, Update (no_context\<lparr>SessionContext.sid := Some ''abc''\<rparr>)),
        (env_at 3000, Close None)]" 1000 1000 None
      "env_at 2000" "no_context\<lparr>SessionContext.sid := Some ''abc''\<rparr>" session_a]
  by (simp add: sid_a_def sid_b_def env_at_def no_context_def)

text \<open>
  Claim C7. \<^verbatim>\<open>toJSON()\<close> returns an object whenever \<^verbatim>\<open>started\<close> and \<^verbatim>\<open>timestamp\<close> are
  time values, and an object it returns has no key whose value is \<^verbatim>\<open>undefined\<close>, at any
  depth, the nested \<^verbatim>\<open>attrs\<close> object included. The key \<^verbatim>\<open>did\<close> is present exactly
  when \<^verbatim>\<open>this.did\<close> is a string or a number, and its value is then the string conversion
  of \<^verbatim>\<open>this.did\<close>.
\<close>

theorem toJSON_no_undefined:
  "(valid_time (Session.started s) \<and> valid_time (Session.timestamp s) \<longrightarrow>
      (\<exists>j. toJSON s = Inr j))
   \<and> (\<forall>j. toJSON s = Inr j \<longrightarrow>
         no_undefined j
         \<and> no_undefined (js_get j ''attrs'')
         \<and> (''did'' \<in> set (js_keys j)) = is_number_or_string (Session.did s)
         \<and> js_get j ''did'' =
             (if is_number_or_string (Session.did s) then JStr (to_string (Session.did s))
              else JUndefined))"
proof (intro conjI allI impI)
  assume "valid_time (Session.started s) \<and> valid_time (Session.timestamp s)"
  then show "\<exists>j. toJSON s = Inr j" by (simp add: toJSON_returns)
next
  fix j assume j: "toJSON s = Inr j"
  show "no_undefined j"
    by (subst toJSON_value [OF j]) (rule no_undefined_dropUndefinedKeys)
  then show "no_undefined (js_get j ''attrs'')"
    by (rule no_undefined_js_get)
  show "(''did'' \<in> set (js_keys j)) = is_number_or_string (Session.did s)"
    by (rule toJSON_did(2) [OF j])
  show "js_get j ''did'' =
             (if is_number_or_string (Session.did s) then JStr (to_string (Session.did s))
              else JUndefined)"
    by (rule toJSON_did(1) [OF j])
qed

text \<open>
  Claim C7 at a session with \<^verbatim>\<open>did = 42\<close> and a release, and at one without \<^verbatim>\<open>did\<close>.
\<close>

theorem toJSON_no_undefined_witness:
  "valid_time (Session.started session_b) \<and> valid_time (Session.timestamp session_b)
   \<and> toJSON session_b = Inr json_b
   \<and> no_undefined json_b
   \<and> is_number_or_string (Session.did session_b)
   \<and> js_get json_b ''did'' = JStr ''42''
   \<and> \<not> is_number_or_string (Session.did session_a)
   \<and> ''did'' \<notin> set (js_keys (projr (toJSON session_a)))"
proof -
  have v: "valid_time (Session.started session_b)" "valid_time (Session.timestamp session_b)"
    by (simp_all add: session_b_def session_a_def init_Session_def valid_time_def)
  have j: "toJSON session_b = Inr json_b"
    by code_simp
  have d: "is_number_or_string (Session.did session_b)" "to_string (Session.did session_b) = ''42''"
    by code_simp+
  have a: "\<not> is_number_or_string (Session.did session_a)"
    by (simp add: session_a_def init_Session_def is_number_or_string_def)
  have "valid_time (Session.started session_a) \<and> valid_time (Session.timestamp session_a)"
    by (simp add: session_a_def init_Session_def valid_time_def)
  with toJSON_no_undefined [of session_a] obtain ja where ja: "toJSON session_a = Inr ja"
    by blast
  with toJSON_no_undefined [of session_a] a have "''did'' \<notin> set (js_keys ja)"
    by blast
  with ja have na: "''did'' \<notin> set (js_keys (projr (toJSON session_a)))"
    by simp
  from toJSON_no_undefined [of session_b] j
  have "no_undefined json_b" and "js_get json_b ''did'' = JStr (to_string (Session.did session_b))"
    using d(1) by auto
  with v j d a na show ?thesis by simp
qed

text \<open>
  Claim C8, as amended. With a transport that has no \<^verbatim>\<open>sendSessions\<close>, the call logs a
  warning, calls nothing else and returns. Otherwise it calls the transport's
  \<^verbatim>\<open>sendSessions\<close> once with the payload; a fulfilled promise leads to nothing more, a
  rejected one to one call of \<^verbatim>\<open>logger.error\<close> with the reason, and in both cases no
  exception reaches the caller and the transport is not called again. An exception reaches
  the caller exactly when the transport's \<^verbatim>\<open>sendSessions\<close> itself throws: the call is
  not guarded.
\<close>

theorem sendSessions_delegates_or_drops:
  "(Transport.sendSessions (transport f) = None \<longrightarrow>
      sendSessions f p =
        ([LoggerWarn ''Dropping session because custom transport doesn't implement sendSession''],
         None))
   \<and> (\<forall>send. Transport.sendSessions (transport f) = Some send \<longrightarrow>
         (send p = Fulfilled \<longrightarrow> sendSessions f p = ([TransportSendSessions p], None))
         \<and> (\<forall>reason. send p = Rejected reason \<longrightarrow>
               sendSessions f p =
                 ([TransportSendSessions p,
                   LoggerError (''Error while sending session: '' @ reason)], None))
         \<and> (\<forall>x. send p = Throws x \<longrightarrow>
               sendSessions f p = ([TransportSendSessions p], Some x)))"
  by (simp add: sendSessions_def)

text \<open>
  Claim C8 as stated fails: the exception of a transport whose \<^verbatim>\<open>sendSessions\<close> throws
  reaches the caller of \<^verbatim>\<open>SessionFlusher.sendSessions\<close>.
\<close>

theorem sendSessions_throwing_transport:
  "Transport.sendSessions (transport (new_SessionFlusher transport_throwing 10))
     = Some (\<lambda>p. Throws ''boom'')
   \<and> sendSessions (new_SessionFlusher transport_throwing 10) no_payload
     = ([TransportSendSessions no_payload], Some ''boom'')"
  by (simp add: sendSessions_def new_SessionFlusher_def transport_throwing_def)

text \<open>
  Claim C8, as amended, at a transport without the method, a rejecting one and a
  fulfilling one.
\<close>

theorem sendSessions_delegates_or_drops_witness:
  "Transport.sendSessions (transport (new_SessionFlusher transport_without 10)) = None
   \<and> sendSessions (new_SessionFlusher transport_without 10) no_payload =
       ([LoggerWarn ''Dropping session because custom transport doesn't implement sendSession''],
        None)
   \<and> Transport.sendSessions (transport (new_SessionFlusher transport_rejecting 10))
       = Some (\<lambda>p. Rejected ''timeout'')
   \<and> sendSessions (new_SessionFlusher transport_rejecting 10) no_payload =
       ([TransportSendSessions no_payload, LoggerError ''Error while sending session: timeout''],
        None)
   \<and> Transport.sendSessions (transport (new_SessionFlusher transport_fulfilling 10))
       = Some (\<lambda>p. Fulfilled)
   \<and> sendSessions (new_SessionFlusher transport_fulfilling 10) no_payload =
       ([TransportSendSessions no_payload], None)"
  using sendSessions_delegates_or_drops [of "new_SessionFlusher transport_without 10" no_payload]
    sendSessions_delegates_or_drops [of "new_SessionFlusher transport_rejecting 10" no_payload]
    sendSessions_delegates_or_drops [of "new_SessionFlusher transport_fulfilling 10" no_payload]
  by (simp add: new_SessionFlusher_def transport_without_def transport_rejecting_def
      transport_fulfilling_def)

text \<open>
  Claim C9, as amended. For a session whose \<^verbatim>\<open>started\<close> was read from the clock at time
  \<open>t_started\<close>, and every sequence of \<^verbatim>\<open>update\<close> and \<^verbatim>\<open>close\<close> calls that is free of
  clock skew (\<^const>\<open>no_clock_skew\<close>: the clock never decreases, an explicit \<^verbatim>\<open>started\<close>
  is not later than the clock, an explicit \<^verbatim>\<open>timestamp\<close> is not earlier than the
  just-updated \<^verbatim>\<open>started\<close>) and gives no negative explicit \<^verbatim>\<open>duration\<close>, the
  \<^verbatim>\<open>duration\<close> is non-negative after each call.
\<close>

theorem duration_nonnegative_without_skew:
  assumes "no_clock_skew t_started (init_Session u t_timestamp t_started) ops"
  shows "0 \<le> Session.duration (run_ops (take n ops) (init_Session u t_timestamp t_started))"
proof -
  have "no_clock_skew t_started (init_Session u t_timestamp t_started) (take n ops)"
    using assms by (rule no_clock_skew_take)
  then show ?thesis
    by (rule run_ops_duration_nonneg) (simp_all add: init_Session_def)
qed

text \<open>
  Claim C9 as stated fails: on a session created at time 1000, an update at time 2000 whose
  context has no \<^verbatim>\<open>timestamp\<close> and no \<^verbatim>\<open>started\<close> but \<^verbatim>\<open>duration: -5\<close> leaves the
  duration at -5, with a clock that never went back.
\<close>

theorem explicit_duration_negative:
  "Session.started session_a \<le> now (env_at 2000)
   \<and> SessionContext.timestamp (no_context\<lparr>SessionContext.duration := Some (- 5)\<rparr>) = None
   \<and> SessionContext.started (no_context\<lparr>SessionContext.duration := Some (- 5)\<rparr>) = None
   \<and> Session.duration
        (run_ops [(env_at 2000, Update (no_context\<lparr>SessionContext.duration := Some (- 5)\<rparr>))]
           session_a) = - 5"
  by (simp add: no_context_def env_at_def session_a_def init_Session_def update_duration)

text \<open>
  Claim C9, as amended, at a sequence with an explicit \<^verbatim>\<open>timestamp\<close> and \<^verbatim>\<open>started\<close>.
\<close>

theorem duration_nonnegative_without_skew_witness:
  "no_clock_skew 1000 (init_Session sid_a 1000 1000)
     [(env_at 2000, Update (no_context\<lparr>SessionContext.timestamp := Some 1500,
                                        SessionContext.started := Some 1200\<rparr>)),
      (env_at 3000, Close None)]
   \<and> 0 \<le> Session.duration
        (run_ops (take 1
           [(env_at 2000, Update (no_context\<lparr>SessionContext.timestamp := Some 1500,
                                              SessionContext.started := Some 1200\<rparr>)),
            (env_at 3000, Close None)])
           (init_Session sid_a 1000 1000))"
proof -
  have h: "no_clock_skew 1000 (init_Session sid_a 1000 1000)
     [(env_at 2000, Update (no_context\<lparr>SessionContext.timestamp := Some 1500,
                                        SessionContext.started := Some 1200\<rparr>)),
      (env_at 3000, Close None)]"
    by (simp add: times_ok_def context_of_def no_context_def env_at_def init_Session_def
        update_started update_status)
  from h duration_nonnegative_without_skew [OF h, of 1] show ?thesis by simp
qed

text \<open>
  Claim C10, as amended. When the context has a user but no \<^verbatim>\<open>did\<close>, and none of the
  user's \<^verbatim>\<open>id\<close>, \<^verbatim>\<open>email\<close> and \<^verbatim>\<open>username\<close> is truthy, \<^verbatim>\<open>update\<close> overwrites
  \<^verbatim>\<open>did\<close> with the value of \<^verbatim>\<open>user.username\<close>, the last operand of the \<^verbatim>\<open>||\<close> chain:
  a falsy value, \<^verbatim>\<open>undefined\<close> when the user has no \<^verbatim>\<open>username\<close>. The \<^verbatim>\<open>did\<close> set
  before is not preserved.
\<close>

theorem update_erases_did:
  assumes "SessionContext.user c = Some u" and "SessionContext.did c = JUndefined"
    and "\<not> truthy (id' u)" and "\<not> truthy (email u)" and "\<not> truthy (username u)"
  shows "Session.did (update e c s) = username u \<and> \<not> truthy (Session.did (update e c s))"
  using assms by (simp add: update_did js_or_def)

text \<open>
  Claim C10 as stated fails: with \<^verbatim>\<open>user: {username: ''}\<close> the \<^verbatim>\<open>did\<close> becomes the empty
  string, not \<^verbatim>\<open>undefined\<close>.
\<close>

theorem update_keeps_falsy_username:
  "truthy (Session.did (session_a\<lparr>Session.did := JStr ''user-1''\<rparr>))
   \<and> SessionContext.did (no_context\<lparr>SessionContext.user := Some user_blank\<rparr>) = JUndefined
   \<and> \<not> truthy (id' user_blank) \<and> \<not> truthy (email user_blank) \<and> \<not> truthy (username user_blank)
   \<and> Session.did
        (update (env_at 2000) (no_context\<lparr>SessionContext.user := Some user_blank\<rparr>)
           (session_a\<lparr>Session.did := JStr ''user-1''\<rparr>)) = JStr ''''
   \<and> Session.did
        (update (env_at 2000) (no_context\<lparr>SessionContext.user := Some user_blank\<rparr>)
           (session_a\<lparr>Session.did := JStr ''user-1''\<rparr>)) \<noteq> JUndefined"
  by (simp add: update_did js_or_def no_context_def user_blank_def session_a_def init_Session_def)

text \<open>
  Claim C10, as amended, at a user without \<^verbatim>\<open>username\<close>: the \<^verbatim>\<open>did\<close> becomes
  \<^verbatim>\<open>undefined\<close>.
\<close>

theorem update_erases_did_witness:
  "SessionContext.user (no_context\<lparr>SessionContext.user := Some (user_blank\<lparr>username := JUndefined\<rparr>)\<rparr>)
     = Some (user_blank\<lparr>username := JUndefined\<rparr>)
   \<and> SessionContext.did (no_context\<lparr>SessionContext.user := Some (user_blank\<lparr>username := JUndefined\<rparr>)\<rparr>)
     = JUndefined
   \<and> \<not> truthy (id' (user_blank\<lparr>username := JUndefined\<rparr>))
   \<and> \<not> truthy (email (user_blank\<lparr>username := JUndefined\<rparr>))
   \<and> \<not> truthy (username (user_blank\<lparr>username := JUndefined\<rparr>))
   \<and> Session.did
        (update (env_at 2000)
           (no_context\<lparr>SessionContext.user := Some (user_blank\<lparr>username := JUndefined\<rparr>)\<rparr>)
           (session_a\<lparr>Session.did := JStr ''user-1''\<rparr>)) = JUndefined"
  using update_erases_did
    [of "no_context\<lparr>SessionContext.user := Some (user_blank\<lparr>username := JUndefined\<rparr>)\<rparr>"
      "user_blank\<lparr>username := JUndefined\<rparr>" "env_at 2000"
      "session_a\<lparr>Session.did := JStr ''user-1''\<rparr>"]
  by (simp add: no_context_def user_blank_def)

end
